theory Spec2Isabelle
  imports Complex_Main "HOL-Library.Word" "HOL-Library.Stream"
begin

section \<open>Arithmetic of the program\<close>

text \<open>
  The program computes on C++ \<open>double\<close> values. The embedding idealises them: a finite
  double is a real number and the operations on finite values are the exact real
  operations, with one exception: where the program converts a double to an integer, a
  rounding error can change the integer, so the operation that computes that double is
  rounded to the nearest double as IEEE arithmetic does (\<open>times_nearest\<close> below). Elsewhere
  rounding and overflow are not modelled. Where real arithmetic has no value
  (a division by zero, the logarithm of a number that is not positive, the square root of
  a negative number) IEEE arithmetic yields an infinity or a NaN. \<open>NonFin\<close> stands for a
  computation that has met such a value; the embedding does not follow it further, so
  every operation is strict in \<open>NonFin\<close>. The inputs of the program (the fields of the
  parameter structs) are finite doubles, so they are reals; \<open>is_double\<close> says which reals
  are doubles.
\<close>

datatype double = Fin real | NonFin

instantiation double :: "{plus, minus, uminus, times, inverse}"
begin

fun plus_double :: "double \<Rightarrow> double \<Rightarrow> double" where
  "plus_double (Fin a) (Fin b) = Fin (a + b)"
| "plus_double _ _ = NonFin"

fun minus_double :: "double \<Rightarrow> double \<Rightarrow> double" where
  "minus_double (Fin a) (Fin b) = Fin (a - b)"
| "minus_double _ _ = NonFin"

fun uminus_double :: "double \<Rightarrow> double" where
  "uminus_double (Fin a) = Fin (- a)"
| "uminus_double NonFin = NonFin"

fun times_double :: "double \<Rightarrow> double \<Rightarrow> double" where
  "times_double (Fin a) (Fin b) = Fin (a * b)"
| "times_double _ _ = NonFin"

fun divide_double :: "double \<Rightarrow> double \<Rightarrow> double" where
  "divide_double (Fin a) (Fin b) = (if b = 0 then NonFin else Fin (a / b))"
| "divide_double _ _ = NonFin"

fun inverse_double :: "double \<Rightarrow> double" where
  "inverse_double (Fin b) = (if b = 0 then NonFin else Fin (1 / b))"
| "inverse_double NonFin = NonFin"

instance ..

end

text \<open>
  Rounding to the nearest double (IEEE binary64, round to nearest, ties to even). A real
  \<open>x\<close> with \<open>2^e \<le> \<bar>x\<bar> < 2^(e+1)\<close> lies between two neighbouring doubles that are multiples
  of \<open>2^(e-52)\<close>, the unit in the last place; below \<open>2^(-1022)\<close> the doubles are the
  multiples of \<open>2^(-1074)\<close>. \<open>x\<close> is rounded to the nearest multiple, and to the even one
  when it is half way. A double is a real that rounding leaves as it is, below \<open>2^1024\<close> in
  magnitude; a product that rounds to \<open>2^1024\<close> or more overflows to an infinity.
\<close>

definition round_ties_to_even :: "real \<Rightarrow> int" where
  "round_ties_to_even y =
     (let f = \<lfloor>y\<rfloor>
      in if y - of_int f < 1 / 2 then f
         else if 1 / 2 < y - of_int f then f + 1
         else if even f then f else f + 1)"

definition binade :: "real \<Rightarrow> int" where
  "binade x = max \<lfloor>log 2 \<bar>x\<bar>\<rfloor> (- 1022)"

definition ulp :: "real \<Rightarrow> real" where
  "ulp x = 2 powr real_of_int (binade x - 52)"

definition round_nearest_double :: "real \<Rightarrow> real" where
  "round_nearest_double x =
     (if x = 0 then 0 else of_int (round_ties_to_even (x / ulp x)) * ulp x)"

definition is_double :: "real \<Rightarrow> bool" where
  "is_double x = (round_nearest_double x = x \<and> \<bar>x\<bar> < 2 ^ 1024)"

fun times_nearest :: "double \<Rightarrow> double \<Rightarrow> double" where
  "times_nearest (Fin a) (Fin b) =
     (let r = round_nearest_double (a * b) in if \<bar>r\<bar> < 2 ^ 1024 then Fin r else NonFin)"
| "times_nearest _ _ = NonFin"

text \<open>\<open>std::log\<close>: minus infinity at 0, NaN below.\<close>

fun std_log :: "double \<Rightarrow> double" where
  "std_log (Fin x) = (if 0 < x then Fin (ln x) else NonFin)"
| "std_log NonFin = NonFin"

text \<open>\<open>std::sqrt\<close>: NaN below 0.\<close>

fun std_sqrt :: "double \<Rightarrow> double" where
  "std_sqrt (Fin x) = (if 0 \<le> x then Fin (sqrt x) else NonFin)"
| "std_sqrt NonFin = NonFin"

fun std_exp :: "double \<Rightarrow> double" where
  "std_exp (Fin x) = Fin (exp x)"
| "std_exp NonFin = NonFin"

fun std_cos :: "double \<Rightarrow> double" where
  "std_cos (Fin x) = Fin (cos x)"
| "std_cos NonFin = NonFin"

text \<open>\<open>std::pow\<close> with the exponent 2, the only one the pricing engine uses.\<close>

fun std_pow2 :: "double \<Rightarrow> double" where
  "std_pow2 (Fin x) = Fin (x ^ 2)"
| "std_pow2 NonFin = NonFin"

text \<open>
  \<open>std::max(a, b)\<close> is \<open>(a < b) ? b : a\<close> and \<open>std::min(a, b)\<close> is
  \<open>(b < a) ? b : a\<close>.
\<close>

definition std_max :: "'a::linorder \<Rightarrow> 'a \<Rightarrow> 'a" where
  "std_max a b = (if a < b then b else a)"

definition std_min :: "'a::linorder \<Rightarrow> 'a \<Rightarrow> 'a" where
  "std_min a b = (if b < a then b else a)"

fun std_max_double :: "double \<Rightarrow> double \<Rightarrow> double" where
  "std_max_double (Fin a) (Fin b) = Fin (std_max a b)"
| "std_max_double _ _ = NonFin"

text \<open>
  \<open>std::erfc\<close> is the complementary error function of the C library. It is the
  mathematical function \<open>1 - erf\<close>, and \<open>erf\<close> is given by its Maclaurin series
  \<open>erf x = 2/\<surd>\<pi> \<cdot> \<Sum>n. (-1)^n x^(2n+1) / (n! (2n+1))\<close>.
\<close>

definition erf_term :: "real \<Rightarrow> nat \<Rightarrow> real" where
  "erf_term x n = (- 1) ^ n * x ^ (2 * n + 1) / (fact n * real (2 * n + 1))"

definition erf :: "real \<Rightarrow> real" where
  "erf x = 2 / sqrt pi * (\<Sum>n. erf_term x n)"

text \<open>The same series as a power series in \<open>x\<close>, with the coefficient of \<open>x^m\<close>.\<close>

definition erf_coeff :: "nat \<Rightarrow> real" where
  "erf_coeff m = (if odd m then (- 1) ^ (m div 2) / (fact (m div 2) * real m) else 0)"

definition erfc :: "real \<Rightarrow> real" where
  "erfc x = 1 - erf x"

fun std_erfc :: "double \<Rightarrow> double" where
  "std_erfc (Fin x) = Fin (erfc x)"
| "std_erfc NonFin = NonFin"

text \<open>
  \<open>static_cast<std::size_t>\<close> of a double truncates towards 0; the behaviour is undefined
  (\<open>None\<close>) when the truncated value is not a \<open>std::size_t\<close>, 64 bits wide.
\<close>

fun static_cast_size_t :: "double \<Rightarrow> nat option" where
  "static_cast_size_t (Fin x) =
     (if - 1 < x \<and> x < 2 ^ 64 then Some (if x < 0 then 0 else nat \<lfloor>x\<rfloor>) else None)"
| "static_cast_size_t NonFin = None"

section \<open>The random number library\<close>

text \<open>
  Modelled from the spec: \<open>std::mt19937_64\<close>, \<open>std::random_device\<close>,
  \<open>std::uniform_real_distribution\<close> and \<open>std::uniform_int_distribution\<close> are library
  code, which the source only calls. The specification says of the Uniform Random Source
  that it is seeded from a non-deterministic entropy source and produces values in the
  closed or half-open interval appropriate to the element type, an inclusive-exclusive
  range for floating types and a closed one for integer types.

  The engine, once seeded, is the sequence of 64-bit words it is going to return; the
  seed is not known, so the sequence is arbitrary. The real distribution scales the
  canonical value of one word, \<open>w / 2^64\<close> in \<open>[0, 1)\<close>, to \<open>a + (b - a) \<cdot> w / 2^64\<close>. The
  integer distribution maps one word into \<open>[a, b]\<close>; the library's own algorithm for it
  is not modelled, only the interval of its values.
\<close>

type_synonym mt19937_64 = "64 word stream"

definition generate_canonical :: "64 word \<Rightarrow> real" where
  "generate_canonical w = real (unat w) / 2 ^ 64"

definition uniform_real_distribution :: "real \<Rightarrow> real \<Rightarrow> 64 word \<Rightarrow> real" where
  "uniform_real_distribution a b w = generate_canonical w * (b - a) + a"

definition uniform_int_distribution :: "int \<Rightarrow> int \<Rightarrow> 64 word \<Rightarrow> int" where
  "uniform_int_distribution a b w = a + int (unat w) mod (b - a + 1)"

section \<open>options.h\<close>

definition MATH_PI :: real where
  "MATH_PI = 314159265358979323846 / 10 ^ 20"

text \<open>
  The enumerations. A C++ \<open>enum class\<close> can hold a value that is none of its
  enumerators (through a cast); the source has \<open>default:\<close> branches for that, so each
  enumeration has one more constructor standing for such a value.
\<close>

datatype Greeks = Delta | Gamma | Theta | Vega | Rho | Greeks_invalid

datatype OptionType = Call | Put | OptionType_invalid

datatype error = runtime_error string | invalid_argument string

record BlackScholesParams =
  interest_rate :: real
  underlying_price :: real
  strike_price :: real
  time :: real
  volatility :: real
  option_type :: OptionType
  paid_price :: real

text \<open>
  \<open>GreeksParams\<close> has the fields of \<open>BlackScholesParams\<close> and \<open>dividend_yield\<close>;
  \<open>MonteCarloParams\<close> has the fields of \<open>BlackScholesParams\<close> and
  \<open>number_of_simulations\<close>, a \<open>std::size_t\<close>. The loops count up to such a value and
  never past it, so no counter wraps around and the type is \<open>nat\<close>.
\<close>

record GreeksParams = BlackScholesParams +
  dividend_yield :: real

record MonteCarloParams = BlackScholesParams +
  number_of_simulations :: nat

text \<open>
  The class template \<open>RandomGenerator\<close>: its engine \<open>gen\<close> and the two parameters of its
  \<open>distribution\<close>. The constructor takes the two limits; the engine is seeded from
  \<open>std::random_device\<close>, so the seeded engine is an argument of the model.
  \<open>getRandomValue\<close> is \<open>distribution(gen)\<close>: it returns a value and advances the engine.
  \<open>getRandomValue\<close> is the instance for a floating type (the program uses
  \<open>RandomGenerator<double>\<close>), \<open>getRandomValue_int\<close> the one for an integer type.
\<close>

record 'a RandomGenerator =
  gen :: mt19937_64
  distribution_a :: 'a
  distribution_b :: 'a

definition RandomGenerator :: "'a::linorder \<Rightarrow> 'a \<Rightarrow> mt19937_64 \<Rightarrow> 'a RandomGenerator" where
  "RandomGenerator left_limit right_limit seeded =
     \<lparr>gen = seeded,
      distribution_a = std_min left_limit right_limit,
      distribution_b = std_max left_limit right_limit\<rparr>"

definition getRandomValue :: "real RandomGenerator \<Rightarrow> real \<times> real RandomGenerator" where
  "getRandomValue rg =
     (uniform_real_distribution (distribution_a rg) (distribution_b rg) (shd (gen rg)),
      rg\<lparr>gen := stl (gen rg)\<rparr>)"

definition getRandomValue_int :: "int RandomGenerator \<Rightarrow> int \<times> int RandomGenerator" where
  "getRandomValue_int rg =
     (uniform_int_distribution (distribution_a rg) (distribution_b rg) (shd (gen rg)),
      rg\<lparr>gen := stl (gen rg)\<rparr>)"

text \<open>The class \<open>Option\<close>, with its members \<open>strike_\<close>, \<open>premium_\<close> and \<open>option_type_\<close>.\<close>

record Option =
  strike :: real
  premium :: real
  Option_type :: OptionType

section \<open>options.cpp\<close>

definition normalCdf :: "double \<Rightarrow> double" where
  "normalCdf x = Fin 0.5 * std_erfc (- x / std_sqrt (Fin 2))"

definition normalPdf :: "double \<Rightarrow> double" where
  "normalPdf x =
     (Fin 1 / std_sqrt (Fin 2 * Fin MATH_PI)) * std_exp (- Fin 0.5 * x * x)"

definition calculateBlackScholes :: "BlackScholesParams \<Rightarrow> error + double" where
  "calculateBlackScholes params =
     (let d1 = (std_log (Fin (underlying_price params) / Fin (strike_price params))
                + (Fin (interest_rate params)
                   + (Fin (volatility params) * Fin (volatility params)) / Fin 2)
                  * Fin (time params))
               / (Fin (volatility params) * std_sqrt (Fin (time params)));
          d2 = d1 - Fin (volatility params) * std_sqrt (Fin (time params))
      in case option_type params of
           Call \<Rightarrow>
             Inr (Fin (underlying_price params) * normalCdf d1
                  - Fin (strike_price params)
                    * std_exp (- Fin (interest_rate params) * Fin (time params))
                    * normalCdf d2)
         | Put \<Rightarrow>
             Inr (Fin (strike_price params)
                  * std_exp (- Fin (interest_rate params) * Fin (time params))
                  * normalCdf (- d2)
                  - Fin (underlying_price params) * normalCdf (- d1))
         | OptionType_invalid \<Rightarrow>
             Inl (invalid_argument ''[!] Invalid option type: must be Call or Put.''))"

definition calculateGreeks :: "GreeksParams \<Rightarrow> Greeks \<Rightarrow> error + double" where
  "calculateGreeks params greek =
     (if time params \<le> 0 then Inl (runtime_error ''[!] Time must be positive'')
      else if volatility params \<le> 0
      then Inl (runtime_error ''[!] Volatility must be positive'')
      else
        let d1 = (std_log (Fin (underlying_price params) / Fin (strike_price params))
                  + (Fin (interest_rate params)
                     + (Fin (volatility params) * Fin (volatility params)) / Fin 2)
                    * Fin (time params))
                 / (Fin (volatility params) * std_sqrt (Fin (time params)));
            d2 = d1 - Fin (volatility params) * std_sqrt (Fin (time params));
            discount = std_exp (- Fin (interest_rate params) * Fin (time params));
            dividend_discount = std_exp (- Fin (dividend_yield params) * Fin (time params))
        in case greek of
             Delta \<Rightarrow>
               Inr (if option_type params = Call
                    then dividend_discount * normalCdf d1
                    else dividend_discount * (normalCdf d1 - Fin 1))
           | Gamma \<Rightarrow>
               Inr ((dividend_discount * normalPdf d1)
                    / (Fin (underlying_price params) * Fin (volatility params)
                       * std_sqrt (Fin (time params))))
           | Theta \<Rightarrow>
               (let theta_part1 =
                      - (Fin (underlying_price params) * Fin (volatility params)
                         * dividend_discount * normalPdf d1)
                      / (Fin 2 * std_sqrt (Fin (time params)));
                    theta_part2 =
                      (if option_type params = Call
                       then - Fin (interest_rate params) * Fin (strike_price params)
                              * discount * normalCdf d2
                            + Fin (dividend_yield params) * Fin (underlying_price params)
                              * dividend_discount * normalCdf d1
                       else Fin (interest_rate params) * Fin (strike_price params)
                              * discount * normalCdf (- d2)
                            - Fin (dividend_yield params) * Fin (underlying_price params)
                              * dividend_discount * normalCdf (- d1))
                in Inr (theta_part1 + theta_part2))
           | Vega \<Rightarrow>
               Inr (Fin (underlying_price params) * dividend_discount * normalPdf d1
                    * std_sqrt (Fin (time params)))
           | Rho \<Rightarrow>
               Inr (if option_type params = Call
                    then Fin (strike_price params) * Fin (time params) * discount
                         * normalCdf d2
                    else - Fin (strike_price params) * Fin (time params) * discount
                         * normalCdf (- d2))
           | Greeks_invalid \<Rightarrow> Inl (invalid_argument ''[!] Invalid Greek specified''))"

text \<open>
  \<open>calculateMonteCarlo\<close>. The two \<open>for\<close> loops are \<open>day_loop\<close> and \<open>sim_loop\<close>, each
  with its counter and the variables it updates (the running price or the total payoff,
  and the random generator). \<open>total_days\<close> is the conversion of the double product
  \<open>params.time * 365.0\<close> to \<open>std::size_t\<close>. \<open>time_step\<close> is computed before the loops and
  is not finite when \<open>total_days\<close> is 0.
\<close>

function day_loop ::
  "MonteCarloParams \<Rightarrow> double \<Rightarrow> nat \<Rightarrow> nat \<Rightarrow> double \<times> real RandomGenerator
   \<Rightarrow> double \<times> real RandomGenerator" where
  "day_loop params time_step total_days day (underlying_price', random_generator_uniform) =
     (if day < total_days
      then
        (let (u1, rg1) = getRandomValue random_generator_uniform;
             (u2, rg2) = getRandomValue rg1;
             random_normal = std_sqrt (Fin (- 2) * std_log (Fin u1))
                             * std_cos (Fin 2 * Fin MATH_PI * Fin u2);
             drift = (Fin (interest_rate params)
                      - Fin 0.5 * std_pow2 (Fin (volatility params))) * time_step;
             diffusion = Fin (volatility params) * std_sqrt time_step * random_normal
         in day_loop params time_step total_days (day + 1)
              (underlying_price' * std_exp (drift + diffusion), rg2))
      else (underlying_price', random_generator_uniform))"
  by pat_completeness auto
termination
  by (relation "measure (\<lambda>(params, time_step, total_days, day, st). total_days - day)") auto

function sim_loop ::
  "MonteCarloParams \<Rightarrow> double \<Rightarrow> nat \<Rightarrow> nat \<Rightarrow> double \<times> real RandomGenerator
   \<Rightarrow> double \<times> real RandomGenerator" where
  "sim_loop params time_step total_days i (total_payoff, random_generator_uniform) =
     (if i < number_of_simulations params
      then
        (let (underlying_price', rg') =
               day_loop params time_step total_days 0
                 (Fin (underlying_price params), random_generator_uniform);
             payoff =
               (if option_type params = Call
                then std_max_double (underlying_price' - Fin (strike_price params)) (Fin 0)
                else if option_type params = Put
                then std_max_double (Fin (strike_price params) - underlying_price') (Fin 0)
                else Fin 0)
         in sim_loop params time_step total_days (i + 1) (total_payoff + payoff, rg'))
      else (total_payoff, random_generator_uniform))"
  by pat_completeness auto
termination
  by (relation "measure (\<lambda>(params, time_step, total_days, i, st).
                           number_of_simulations params - i)") auto

declare day_loop.simps [simp del] sim_loop.simps [simp del]

definition calculateMonteCarlo :: "MonteCarloParams \<Rightarrow> mt19937_64 \<Rightarrow> double option" where
  "calculateMonteCarlo params seeded =
     (let random_generator_uniform = RandomGenerator 0 1 seeded
      in case static_cast_size_t (times_nearest (Fin (time params)) (Fin 365)) of
           None \<Rightarrow> None
         | Some total_days \<Rightarrow>
             (let time_step = Fin (time params) / Fin (real total_days);
                  (total_payoff, rg) =
                    sim_loop params time_step total_days 0 (Fin 0, random_generator_uniform);
                  average_payoff = total_payoff / Fin (real (number_of_simulations params));
                  discount_factor = std_exp (- Fin (interest_rate params) * Fin (time params))
              in Some (average_payoff * discount_factor)))"

definition calculatePayoff :: "Option \<Rightarrow> real \<Rightarrow> double" where
  "calculatePayoff opt spotPrice =
     (if Option_type opt = Call
      then std_max_double (Fin spotPrice - Fin (strike opt)) (Fin 0) - Fin (premium opt)
      else std_max_double (Fin (strike opt) - Fin spotPrice) (Fin 0) - Fin (premium opt))"

section \<open>The formulas of the specification\<close>

text \<open>
  The quantities the specification names, over the reals. \<open>\<Phi>\<close> and \<open>\<phi>\<close> are the
  standard normal distribution function and density; the \<open>\<pi>\<close> of the density is the
  program's constant \<open>MATH_PI\<close>.
\<close>

definition Phi :: "real \<Rightarrow> real" where
  "Phi x = 0.5 * erfc (- x / sqrt 2)"

definition phi :: "real \<Rightarrow> real" where
  "phi x = (1 / sqrt (2 * MATH_PI)) * exp (- (x\<^sup>2) / 2)"

definition d1_spec :: "real \<Rightarrow> real \<Rightarrow> real \<Rightarrow> real \<Rightarrow> real \<Rightarrow> real" where
  "d1_spec S K r \<sigma> T = (ln (S / K) + (r + \<sigma>\<^sup>2 / 2) * T) / (\<sigma> * sqrt T)"

definition d2_spec :: "real \<Rightarrow> real \<Rightarrow> real \<Rightarrow> real \<Rightarrow> real \<Rightarrow> real" where
  "d2_spec S K r \<sigma> T = d1_spec S K r \<sigma> T - \<sigma> * sqrt T"

definition call_price_spec :: "real \<Rightarrow> real \<Rightarrow> real \<Rightarrow> real \<Rightarrow> real \<Rightarrow> real" where
  "call_price_spec S K r \<sigma> T =
     S * Phi (d1_spec S K r \<sigma> T) - K * exp (- (r * T)) * Phi (d2_spec S K r \<sigma> T)"

definition put_price_spec :: "real \<Rightarrow> real \<Rightarrow> real \<Rightarrow> real \<Rightarrow> real \<Rightarrow> real" where
  "put_price_spec S K r \<sigma> T =
     K * exp (- (r * T)) * Phi (- d2_spec S K r \<sigma> T) - S * Phi (- d1_spec S K r \<sigma> T)"

text \<open>
  The formulas have a value over the reals when \<open>S / K\<close> exists and is positive, \<open>T\<close> is
  not negative and the divisor \<open>\<sigma>\<surd>T\<close> is not 0.
\<close>

definition d1_defined :: "real \<Rightarrow> real \<Rightarrow> real \<Rightarrow> real \<Rightarrow> bool" where
  "d1_defined S K \<sigma> T = (K \<noteq> 0 \<and> 0 < S / K \<and> 0 \<le> T \<and> \<sigma> * sqrt T \<noteq> 0)"

text \<open>
  The sensitivities of section 4.4 of the specification, with \<open>discount = e^(-rT)\<close> and
  \<open>dividend_discount = e^(-qT)\<close>. Theta is \<open>theta_part1 + theta_part2\<close>.
\<close>

fun greeks_spec :: "OptionType \<Rightarrow> Greeks \<Rightarrow> real \<Rightarrow> real \<Rightarrow> real \<Rightarrow> real \<Rightarrow> real \<Rightarrow> real \<Rightarrow> real" where
  "greeks_spec Call Delta S K r \<sigma> T q = exp (- (q * T)) * Phi (d1_spec S K r \<sigma> T)"
| "greeks_spec Put Delta S K r \<sigma> T q = exp (- (q * T)) * (Phi (d1_spec S K r \<sigma> T) - 1)"
| "greeks_spec ty Gamma S K r \<sigma> T q =
     exp (- (q * T)) * phi (d1_spec S K r \<sigma> T) / (S * \<sigma> * sqrt T)"
| "greeks_spec Call Theta S K r \<sigma> T q =
     - (S * \<sigma> * exp (- (q * T)) * phi (d1_spec S K r \<sigma> T)) / (2 * sqrt T)
     + (- r * K * exp (- (r * T)) * Phi (d2_spec S K r \<sigma> T)
        + q * S * exp (- (q * T)) * Phi (d1_spec S K r \<sigma> T))"
| "greeks_spec Put Theta S K r \<sigma> T q =
     - (S * \<sigma> * exp (- (q * T)) * phi (d1_spec S K r \<sigma> T)) / (2 * sqrt T)
     + (r * K * exp (- (r * T)) * Phi (- d2_spec S K r \<sigma> T)
        - q * S * exp (- (q * T)) * Phi (- d1_spec S K r \<sigma> T))"
| "greeks_spec ty Vega S K r \<sigma> T q =
     S * exp (- (q * T)) * phi (d1_spec S K r \<sigma> T) * sqrt T"
| "greeks_spec Call Rho S K r \<sigma> T q = K * T * exp (- (r * T)) * Phi (d2_spec S K r \<sigma> T)"
| "greeks_spec Put Rho S K r \<sigma> T q =
     - K * T * exp (- (r * T)) * Phi (- d2_spec S K r \<sigma> T)"

text \<open>
  The samples of a random generator: \<open>nth_sample rg n\<close> is the value that the call number
  \<open>n\<close> (from 0) of \<open>getRandomValue\<close> returns, starting from the generator \<open>rg\<close>.
\<close>

definition nth_sample :: "real RandomGenerator \<Rightarrow> nat \<Rightarrow> real" where
  "nth_sample rg n = fst (getRandomValue (rg\<lparr>gen := sdrop n (gen rg)\<rparr>))"

definition nth_sample_int :: "int RandomGenerator \<Rightarrow> nat \<Rightarrow> int" where
  "nth_sample_int rg n = fst (getRandomValue_int (rg\<lparr>gen := sdrop n (gen rg)\<rparr>))"

text \<open>
  The Monte Carlo algorithm of section 4.5 of the specification, for a number of days
  \<open>total_days\<close> (\<open>monte_carlo_days_spec\<close>) and with \<open>total_days\<close> the integer part of the
  double product \<open>T \<cdot> 365\<close> (\<open>monte_carlo_spec\<close>). The Box-Muller transform
  \<open>Z = \<surd>(-2 ln u1) cos (2\<pi> u2)\<close> has a real value for \<open>0 < u1 \<le> 1\<close>; its \<open>\<pi>\<close> is the
  program's constant \<open>MATH_PI\<close>. One step multiplies the price by \<open>exp (drift + diffusion)\<close>
  with \<open>drift = (r - \<sigma>\<^sup>2/2) time_step\<close> and \<open>diffusion = \<sigma> \<surd>time_step Z\<close>. A path starts from
  the underlying price and takes \<open>total_days\<close> steps, each with the next two samples; path
  number \<open>i\<close> takes the samples from number \<open>2 total_days i\<close> on. The terminal payoffs of
  the paths are added up, and the result is the mean payoff times \<open>exp (- r T)\<close>. The
  specification gives the payoff of a Call and of a Put; for any other value of the option
  type the payoff is 0, as in the code.
\<close>

definition box_muller_spec :: "real \<Rightarrow> real \<Rightarrow> double" where
  "box_muller_spec u1 u2 =
     (if 0 < u1 \<and> u1 \<le> 1 then Fin (sqrt (- 2 * ln u1) * cos (2 * MATH_PI * u2)) else NonFin)"

definition gbm_step_spec :: "real \<Rightarrow> real \<Rightarrow> double \<Rightarrow> double \<Rightarrow> double" where
  "gbm_step_spec r \<sigma> time_step Z =
     std_exp (Fin (r - \<sigma>\<^sup>2 / 2) * time_step + Fin \<sigma> * std_sqrt time_step * Z)"

primrec path_spec :: "real \<Rightarrow> real \<Rightarrow> real \<Rightarrow> double \<Rightarrow> (nat \<Rightarrow> real) \<Rightarrow> nat \<Rightarrow> double" where
  "path_spec S r \<sigma> time_step u 0 = Fin S"
| "path_spec S r \<sigma> time_step u (Suc day) =
     path_spec S r \<sigma> time_step u day
     * gbm_step_spec r \<sigma> time_step (box_muller_spec (u (2 * day)) (u (2 * day + 1)))"

definition payoff_spec :: "OptionType \<Rightarrow> real \<Rightarrow> double \<Rightarrow> double" where
  "payoff_spec ty K price =
     (case ty of
        Call \<Rightarrow> std_max_double (price - Fin K) (Fin 0)
      | Put \<Rightarrow> std_max_double (Fin K - price) (Fin 0)
      | OptionType_invalid \<Rightarrow> Fin 0)"

primrec total_payoff_spec ::
  "OptionType \<Rightarrow> real \<Rightarrow> real \<Rightarrow> real \<Rightarrow> real \<Rightarrow> double \<Rightarrow> nat \<Rightarrow> (nat \<Rightarrow> real) \<Rightarrow> nat
   \<Rightarrow> double" where
  "total_payoff_spec ty S K r \<sigma> time_step total_days u 0 = Fin 0"
| "total_payoff_spec ty S K r \<sigma> time_step total_days u (Suc i) =
     total_payoff_spec ty S K r \<sigma> time_step total_days u i
     + payoff_spec ty K
         (path_spec S r \<sigma> time_step (\<lambda>j. u (2 * total_days * i + j)) total_days)"

definition monte_carlo_days_spec ::
  "nat \<Rightarrow> real \<Rightarrow> real \<Rightarrow> real \<Rightarrow> real \<Rightarrow> real \<Rightarrow> OptionType \<Rightarrow> nat \<Rightarrow> (nat \<Rightarrow> real) \<Rightarrow> double" where
  "monte_carlo_days_spec N r S K T \<sigma> ty total_days u =
     (let time_step = Fin T / Fin (real total_days)
      in total_payoff_spec ty S K r \<sigma> time_step total_days u N / Fin (real N)
         * Fin (exp (- (r * T))))"

definition monte_carlo_spec ::
  "nat \<Rightarrow> real \<Rightarrow> real \<Rightarrow> real \<Rightarrow> real \<Rightarrow> real \<Rightarrow> OptionType \<Rightarrow> (nat \<Rightarrow> real) \<Rightarrow> double" where
  "monte_carlo_spec N r S K T \<sigma> ty u =
     monte_carlo_days_spec N r S K T \<sigma> ty (nat \<lfloor>round_nearest_double (T * 365)\<rfloor>) u"

section \<open>The standard normal utilities\<close>

lemma erf_term_minus: "erf_term (- x) n = - erf_term x n"
  by (simp add: erf_term_def)

lemma summable_erf_term: "summable (erf_term x)"
proof (rule summable_comparison_test')
  show "summable (\<lambda>n. \<bar>x\<bar> * ((x\<^sup>2) ^ n /\<^sub>R fact n))"
    by (intro summable_mult summable_exp_generic)
next
  fix n :: nat
  have "norm (erf_term x n) = \<bar>x\<bar> * (x\<^sup>2) ^ n / (fact n * real (2 * n + 1))"
    by (simp add: erf_term_def abs_mult power_abs power_mult power2_eq_square)
  also have "\<dots> \<le> \<bar>x\<bar> * (x\<^sup>2) ^ n / (fact n * 1)"
    by (intro divide_left_mono mult_left_mono mult_nonneg_nonneg mult_pos_pos) auto
  finally show "norm (erf_term x n) \<le> \<bar>x\<bar> * ((x\<^sup>2) ^ n /\<^sub>R fact n)"
    by (simp add: divide_inverse mult_ac)
qed

lemma erf_minus: "erf (- x) = - erf x"
proof -
  have "(\<Sum>n. erf_term (- x) n) = (\<Sum>n. - erf_term x n)"
    by (simp add: erf_term_minus)
  also have "\<dots> = - (\<Sum>n. erf_term x n)"
    by (rule suminf_minus [OF summable_erf_term])
  finally show ?thesis by (simp add: erf_def)
qed

lemma erfc_zero: "erfc 0 = 1"
  by (simp add: erfc_def erf_def erf_term_def)

lemma erfc_minus: "erfc (- x) = 2 - erfc x"
  by (simp add: erfc_def erf_minus)

lemma Phi_minus: "Phi (- x) = 1 - Phi x"
proof -
  have "erfc (x / sqrt 2) = 2 - erfc (- x / sqrt 2)"
    using erfc_minus [of "- x / sqrt 2"] by simp
  then show ?thesis by (simp add: Phi_def)
qed

text \<open>
  The series is the error function: \<open>erf 0 = 0\<close> and the derivative of \<open>erf\<close> at \<open>x\<close> is
  \<open>2/\<surd>\<pi> \<cdot> exp (- x\<^sup>2)\<close>. So \<open>\<Phi>\<close> is the standard normal distribution function:
  \<open>\<Phi> 0 = 1/2\<close> and its derivative is the standard normal density.
\<close>

lemma erf_term_coeff: "erf_term x n = erf_coeff (2 * n + 1) * x ^ (2 * n + 1)"
  by (simp add: erf_term_def erf_coeff_def)

lemma strict_mono_odd: "strict_mono (\<lambda>n::nat. 2 * n + 1)"
  by (simp add: strict_mono_def)

lemma strict_mono_even: "strict_mono (\<lambda>n::nat. 2 * n)"
  by (simp add: strict_mono_def)

lemma erf_coeff_outside:
  assumes "m \<notin> range (\<lambda>n::nat. 2 * n + 1)"
  shows "erf_coeff m * x ^ m = 0"
proof -
  have "even m"
  proof (rule ccontr)
    assume "odd m"
    then obtain k where "m = 2 * k + 1" by (elim oddE)
    then have "m \<in> range (\<lambda>n::nat. 2 * n + 1)" by (rule range_eqI)
    with assms show False by simp
  qed
  then show ?thesis by (simp add: erf_coeff_def)
qed

lemma erf_power_series: "(\<Sum>n. erf_term x n) = (\<Sum>m. erf_coeff m * x ^ m)"
proof -
  have "(\<Sum>n. erf_coeff (2 * n + 1) * x ^ (2 * n + 1)) = (\<Sum>m. erf_coeff m * x ^ m)"
  proof (rule suminf_mono_reindex [where g = "\<lambda>n. 2 * n + 1" and f = "\<lambda>m. erf_coeff m * x ^ m"])
    show "strict_mono (\<lambda>n::nat. 2 * n + 1)" by (rule strict_mono_odd)
    show "erf_coeff m * x ^ m = 0" if "m \<notin> range (\<lambda>n::nat. 2 * n + 1)" for m
      using that by (rule erf_coeff_outside)
  qed
  then show ?thesis by (simp only: erf_term_coeff)
qed

lemma summable_erf_power_series: "summable (\<lambda>m. erf_coeff m * x ^ m)"
proof -
  have "summable (\<lambda>n. erf_coeff (2 * n + 1) * x ^ (2 * n + 1))
        = summable (\<lambda>m. erf_coeff m * x ^ m)"
  proof (rule summable_mono_reindex [where g = "\<lambda>n. 2 * n + 1" and f = "\<lambda>m. erf_coeff m * x ^ m"])
    show "strict_mono (\<lambda>n::nat. 2 * n + 1)" by (rule strict_mono_odd)
    show "erf_coeff m * x ^ m = 0" if "m \<notin> range (\<lambda>n::nat. 2 * n + 1)" for m
      using that by (rule erf_coeff_outside)
  qed
  moreover have "erf_term x = (\<lambda>n. erf_coeff (2 * n + 1) * x ^ (2 * n + 1))"
    by (rule ext) (rule erf_term_coeff)
  then have "summable (\<lambda>n. erf_coeff (2 * n + 1) * x ^ (2 * n + 1))"
    using summable_erf_term [of x] by (simp only:)
  ultimately show ?thesis by simp
qed

lemma diffs_erf_coeff:
  "diffs erf_coeff m = (if even m then (- 1) ^ (m div 2) / fact (m div 2) else 0)"
  by (simp add: diffs_def erf_coeff_def)

lemma diffs_erf_term: "diffs erf_coeff (2 * n) * x ^ (2 * n) = (- (x\<^sup>2)) ^ n /\<^sub>R fact n"
proof -
  have "diffs erf_coeff (2 * n) = (- 1) ^ n / fact n" by (simp add: diffs_erf_coeff)
  moreover have "x ^ (2 * n) = (x\<^sup>2) ^ n" by (rule power_mult)
  moreover have "(- (x\<^sup>2)) ^ n = (- 1) ^ n * (x\<^sup>2) ^ n" by (rule power_minus)
  ultimately show ?thesis by (simp only: scaleR_conv_of_real of_real_inverse) (simp add: divide_inverse)
qed

lemma diffs_erf_series: "(\<Sum>m. diffs erf_coeff m * x ^ m) = exp (- (x\<^sup>2))"
proof -
  have "(\<Sum>n. diffs erf_coeff (2 * n) * x ^ (2 * n)) = (\<Sum>m. diffs erf_coeff m * x ^ m)"
  proof (rule suminf_mono_reindex [where g = "\<lambda>n. 2 * n" and f = "\<lambda>m. diffs erf_coeff m * x ^ m"])
    show "strict_mono (\<lambda>n::nat. 2 * n)" by (rule strict_mono_even)
    show "diffs erf_coeff m * x ^ m = 0" if "m \<notin> range (\<lambda>n::nat. 2 * n)" for m
    proof -
      have "odd m"
      proof (rule ccontr)
        assume "\<not> odd m"
        then obtain k where "m = 2 * k" by (auto elim: evenE)
        then have "m \<in> range (\<lambda>n::nat. 2 * n)" by (rule range_eqI)
        with that show False by simp
      qed
      then show ?thesis by (simp add: diffs_erf_coeff)
    qed
  qed
  then have "(\<Sum>m. diffs erf_coeff m * x ^ m) = (\<Sum>n. (- (x\<^sup>2)) ^ n /\<^sub>R fact n)"
    by (simp only: diffs_erf_term)
  then show ?thesis by (simp only: exp_def)
qed

lemma DERIV_erf: "DERIV erf x :> 2 / sqrt pi * exp (- (x\<^sup>2))"
proof -
  have "DERIV (\<lambda>x. \<Sum>m. erf_coeff m * x ^ m) x :> (\<Sum>m. diffs erf_coeff m * x ^ m)"
    by (rule termdiffs_strong_converges_everywhere) (rule summable_erf_power_series)
  then have "DERIV (\<lambda>x. \<Sum>n. erf_term x n) x :> exp (- (x\<^sup>2))"
    by (simp only: erf_power_series diffs_erf_series)
  then have "DERIV (\<lambda>x. 2 / sqrt pi * (\<Sum>n. erf_term x n)) x :> 2 / sqrt pi * exp (- (x\<^sup>2))"
    by (rule DERIV_cmult)
  then show ?thesis by (simp only: erf_def [abs_def])
qed

lemma erf_zero: "erf 0 = 0"
  by (simp add: erf_def erf_term_def)

lemma DERIV_Phi: "DERIV Phi x :> exp (- (x\<^sup>2) / 2) / sqrt (2 * pi)"
proof -
  have g: "DERIV (\<lambda>x. - x / sqrt 2) x :> - 1 / sqrt 2"
    using DERIV_cdivide [OF DERIV_minus [OF DERIV_ident], of "sqrt 2" x] by simp
  have "DERIV (\<lambda>x. 0.5 * (1 - erf (- x / sqrt 2))) x
          :> 0.5 * (0 - (2 / sqrt pi * exp (- ((- x / sqrt 2)\<^sup>2)) * (- 1 / sqrt 2)))"
    by (intro DERIV_cmult DERIV_diff DERIV_const DERIV_chain2 [OF DERIV_erf] g)
  moreover have "(- x / sqrt 2)\<^sup>2 = x\<^sup>2 / 2" by (simp add: power_divide)
  moreover have "0.5 * (0 - (2 / sqrt pi * e * (- 1 / sqrt 2))) = e / sqrt (2 * pi)" for e :: real
    by (simp add: real_sqrt_mult)
  ultimately have "DERIV (\<lambda>x. 0.5 * (1 - erf (- x / sqrt 2))) x
                     :> exp (- (x\<^sup>2 / 2)) / sqrt (2 * pi)"
    by (simp only:)
  then show ?thesis
    by (simp only: Phi_def [abs_def] erfc_def minus_divide_left)
qed

lemma Phi_zero: "Phi 0 = 1 / 2"
  by (simp add: Phi_def erfc_zero)

lemma normalCdf_Fin: "normalCdf (Fin x) = Fin (Phi x)"
  by (simp add: normalCdf_def Phi_def)

lemma normalCdf_NonFin: "normalCdf NonFin = NonFin"
  by (simp add: normalCdf_def)

lemma MATH_PI_pos: "0 < MATH_PI"
  by (simp add: MATH_PI_def)

lemma normalPdf_Fin: "normalPdf (Fin x) = Fin (phi x)"
  using MATH_PI_pos by (simp add: normalPdf_def phi_def power2_eq_square)

lemma normalPdf_NonFin: "normalPdf NonFin = NonFin"
  using MATH_PI_pos by (simp add: normalPdf_def)

section \<open>The Black-Scholes evaluator\<close>

lemma d1_code:
  "(std_log (Fin S / Fin K) + (Fin r + (Fin \<sigma> * Fin \<sigma>) / Fin 2) * Fin T)
     / (Fin \<sigma> * std_sqrt (Fin T))
   = (if d1_defined S K \<sigma> T then Fin (d1_spec S K r \<sigma> T) else NonFin)"
  by (simp add: d1_defined_def d1_spec_def power2_eq_square)

lemma d2_code:
  "(if d1_defined S K \<sigma> T then Fin (d1_spec S K r \<sigma> T) else NonFin)
     - Fin \<sigma> * std_sqrt (Fin T)
   = (if d1_defined S K \<sigma> T then Fin (d2_spec S K r \<sigma> T) else NonFin)"
  by (simp add: d1_defined_def d2_spec_def)

lemma calculateBlackScholes_Call:
  "calculateBlackScholes
     \<lparr>interest_rate = r, underlying_price = S, strike_price = K, time = T,
      volatility = \<sigma>, option_type = Call, paid_price = c\<rparr>
   = Inr (if d1_defined S K \<sigma> T then Fin (call_price_spec S K r \<sigma> T) else NonFin)"
  unfolding calculateBlackScholes_def Let_def
  by (simp only: BlackScholesParams.simps d1_code d2_code)
     (simp add: normalCdf_Fin normalCdf_NonFin call_price_spec_def)

lemma calculateBlackScholes_Put:
  "calculateBlackScholes
     \<lparr>interest_rate = r, underlying_price = S, strike_price = K, time = T,
      volatility = \<sigma>, option_type = Put, paid_price = c\<rparr>
   = Inr (if d1_defined S K \<sigma> T then Fin (put_price_spec S K r \<sigma> T) else NonFin)"
  unfolding calculateBlackScholes_def Let_def
  by (simp only: BlackScholesParams.simps d1_code d2_code)
     (simp add: normalCdf_Fin normalCdf_NonFin put_price_spec_def)

lemma d1_defined_pos: "0 < S \<Longrightarrow> 0 < K \<Longrightarrow> 0 < T \<Longrightarrow> 0 < \<sigma> \<Longrightarrow> d1_defined S K \<sigma> T"
  by (simp add: d1_defined_def)

lemma parity_spec:
  "call_price_spec S K r \<sigma> T - put_price_spec S K r \<sigma> T = S - K * exp (- (r * T))"
  by (simp add: call_price_spec_def put_price_spec_def Phi_minus algebra_simps)

text \<open>
  C1. For every \<open>BlackScholesParams\<close>, \<open>calculateBlackScholes\<close> returns, for a Call,
  \<open>S \<Phi>(d1) - K e^(-rT) \<Phi>(d2)\<close> and, for a Put, \<open>K e^(-rT) \<Phi>(-d2) - S \<Phi>(-d1)\<close>, with
  \<open>d1 = (ln (S/K) + (r + \<sigma>\<^sup>2/2) T) / (\<sigma> \<surd>T)\<close>, \<open>d2 = d1 - \<sigma> \<surd>T\<close> and
  \<open>\<Phi> x = 0.5 erfc (- x / \<surd>2)\<close>, wherever these formulas have a value over the reals;
  where they have none, the computation meets a value that is not finite. No error is
  raised.
\<close>

theorem calculateBlackScholes_formula:
  "calculateBlackScholes
     \<lparr>interest_rate = r, underlying_price = S, strike_price = K, time = T,
      volatility = \<sigma>, option_type = Call, paid_price = c\<rparr>
   = Inr (if d1_defined S K \<sigma> T
          then Fin (S * (0.5 * erfc (- d1_spec S K r \<sigma> T / sqrt 2))
                    - K * exp (- (r * T)) * (0.5 * erfc (- d2_spec S K r \<sigma> T / sqrt 2)))
          else NonFin)
   \<and> calculateBlackScholes
     \<lparr>interest_rate = r, underlying_price = S, strike_price = K, time = T,
      volatility = \<sigma>, option_type = Put, paid_price = c\<rparr>
   = Inr (if d1_defined S K \<sigma> T
          then Fin (K * exp (- (r * T)) * (0.5 * erfc (- (- d2_spec S K r \<sigma> T) / sqrt 2))
                    - S * (0.5 * erfc (- (- d1_spec S K r \<sigma> T) / sqrt 2)))
          else NonFin)"
  by (simp add: calculateBlackScholes_Call calculateBlackScholes_Put call_price_spec_def
      put_price_spec_def Phi_def)

text \<open>
  C2. Put-call parity: for positive \<open>S\<close>, \<open>K\<close>, \<open>T\<close> and \<open>\<sigma>\<close> both prices are finite and
  the price of the Call minus the price of the Put on the same inputs is
  \<open>S - K e^(-rT)\<close>, exactly over the reals.
\<close>

theorem put_call_parity:
  assumes "0 < S" and "0 < K" and "0 < T" and "0 < \<sigma>"
  shows "\<exists>call put.
           calculateBlackScholes
             \<lparr>interest_rate = r, underlying_price = S, strike_price = K, time = T,
              volatility = \<sigma>, option_type = Call, paid_price = c\<rparr> = Inr (Fin call)
         \<and> calculateBlackScholes
             \<lparr>interest_rate = r, underlying_price = S, strike_price = K, time = T,
              volatility = \<sigma>, option_type = Put, paid_price = c\<rparr> = Inr (Fin put)
         \<and> call - put = S - K * exp (- (r * T))"
  using assms parity_spec [of S K r \<sigma> T]
  by (simp add: calculateBlackScholes_Call calculateBlackScholes_Put d1_defined_pos)

theorem put_call_parity_witness:
  "\<exists>call put.
           calculateBlackScholes
             \<lparr>interest_rate = 0.2, underlying_price = 100, strike_price = 105, time = 0.5,
              volatility = 0.3, option_type = Call, paid_price = 5\<rparr> = Inr (Fin call)
         \<and> calculateBlackScholes
             \<lparr>interest_rate = 0.2, underlying_price = 100, strike_price = 105, time = 0.5,
              volatility = 0.3, option_type = Put, paid_price = 5\<rparr> = Inr (Fin put)
         \<and> call - put = 100 - 105 * exp (- (0.2 * 0.5))"
  using put_call_parity [of 100 105 "0.5" "0.3" "0.2" 5] by simp

section \<open>The Greeks evaluator\<close>

lemma d1_defined_Greeks:
  "0 < T \<Longrightarrow> 0 < \<sigma> \<Longrightarrow> d1_defined S K \<sigma> T = (K \<noteq> 0 \<and> 0 < S / K)"
  by (auto simp add: d1_defined_def)

lemma calculateGreeks_errors:
  "calculateGreeks params greek =
     (if time params \<le> 0 then Inl (runtime_error ''[!] Time must be positive'')
      else if volatility params \<le> 0
      then Inl (runtime_error ''[!] Volatility must be positive'')
      else if greek = Greeks_invalid
      then Inl (invalid_argument ''[!] Invalid Greek specified'')
      else Inr (projr (calculateGreeks params greek)))"
  by (cases greek) (simp_all add: calculateGreeks_def Let_def)

text \<open>
  C3. \<open>calculateGreeks\<close> raises a validation error (a \<open>std::runtime_error\<close>) if and
  only if \<open>time \<le> 0\<close> or \<open>volatility \<le> 0\<close>, so also at \<open>time = 0\<close> and at
  \<open>volatility = 0\<close>; for \<open>time > 0\<close>, \<open>volatility > 0\<close> and a valid selector it returns a
  value and raises nothing.
\<close>

theorem calculateGreeks_validation:
  "((\<exists>msg. calculateGreeks params greek = Inl (runtime_error msg))
      \<longleftrightarrow> (time params \<le> 0 \<or> volatility params \<le> 0))
   \<and> (0 < time params \<and> 0 < volatility params \<and> greek \<noteq> Greeks_invalid
        \<longrightarrow> (\<exists>v. calculateGreeks params greek = Inr v))"
  by (subst (1 2) calculateGreeks_errors) auto

theorem calculateGreeks_validation_witness:
  "(\<exists>msg. calculateGreeks
       \<lparr>interest_rate = 0.05, underlying_price = 100, strike_price = 100, time = 0,
        volatility = 0.2, option_type = Call, paid_price = 0, dividend_yield = 0\<rparr> Delta
       = Inl (runtime_error msg))
   \<and> (\<exists>msg. calculateGreeks
       \<lparr>interest_rate = 0.05, underlying_price = 100, strike_price = 100, time = 1,
        volatility = 0, option_type = Call, paid_price = 0, dividend_yield = 0\<rparr> Delta
       = Inl (runtime_error msg))
   \<and> (\<exists>v. calculateGreeks
       \<lparr>interest_rate = 0.05, underlying_price = 100, strike_price = 100, time = 1,
        volatility = 0.2, option_type = Call, paid_price = 0, dividend_yield = 0\<rparr> Delta
       = Inr v)"
  using
    calculateGreeks_validation [of
      "\<lparr>interest_rate = 0.05, underlying_price = 100, strike_price = 100, time = 0,
        volatility = 0.2, option_type = Call, paid_price = 0, dividend_yield = 0\<rparr>" Delta]
    calculateGreeks_validation [of
      "\<lparr>interest_rate = 0.05, underlying_price = 100, strike_price = 100, time = 1,
        volatility = 0, option_type = Call, paid_price = 0, dividend_yield = 0\<rparr>" Delta]
    calculateGreeks_validation [of
      "\<lparr>interest_rate = 0.05, underlying_price = 100, strike_price = 100, time = 1,
        volatility = 0.2, option_type = Call, paid_price = 0, dividend_yield = 0\<rparr>" Delta]
  by simp

text \<open>
  C4. For \<open>time > 0\<close> and \<open>volatility > 0\<close>, \<open>calculateGreeks\<close> returns the formula of the
  specification for the selected sensitivity and option type (Delta, Gamma, Theta, Vega, Rho;
  Gamma and Vega do not depend on the option type), wherever \<open>ln (S/K)\<close> has a value; where
  it has none, the computation meets a value that is not finite.
\<close>

theorem calculateGreeks_formulas:
  assumes "0 < T" and "0 < \<sigma>" and "ty = Call \<or> ty = Put" and "greek \<noteq> Greeks_invalid"
  shows "calculateGreeks
           \<lparr>interest_rate = r, underlying_price = S, strike_price = K, time = T,
            volatility = \<sigma>, option_type = ty, paid_price = c, dividend_yield = q\<rparr> greek
         = Inr (if K \<noteq> 0 \<and> 0 < S / K then Fin (greeks_spec ty greek S K r \<sigma> T q)
                else NonFin)"
proof -
  have pos: "\<not> T \<le> 0" "\<not> \<sigma> \<le> 0" using assms by simp_all
  show ?thesis
    unfolding calculateGreeks_def Let_def
    apply (simp only: BlackScholesParams.simps GreeksParams.simps d1_code d2_code pos if_False)
    using assms
    apply (cases greek; cases ty)
    apply (simp_all add: d1_defined_Greeks normalCdf_Fin normalCdf_NonFin normalPdf_Fin normalPdf_NonFin)
    done
qed

theorem calculateGreeks_formulas_witness:
  "calculateGreeks
     \<lparr>interest_rate = 0.05, underlying_price = 100, strike_price = 100, time = 1,
      volatility = 0.2, option_type = Put, paid_price = 0, dividend_yield = 0\<rparr> Delta
   = Inr (Fin (greeks_spec Put Delta 100 100 0.05 0.2 1 0))"
  using calculateGreeks_formulas [of 1 "0.2" Put Delta "0.05" 100 100 0 0] by simp

section \<open>Rounding to the nearest double\<close>

lemma round_ties_to_even_le: "y \<le> of_int n \<Longrightarrow> round_ties_to_even y \<le> n"
  unfolding round_ties_to_even_def Let_def by (auto split: if_splits) linarith+

lemma round_ties_to_even_ge: "of_int n \<le> y \<Longrightarrow> n \<le> round_ties_to_even y"
  unfolding round_ties_to_even_def Let_def by (auto split: if_splits) linarith+

lemma round_ties_to_even_upper: "of_int (round_ties_to_even y) \<le> y + 1 / 2"
  unfolding round_ties_to_even_def Let_def by (auto split: if_splits) linarith+

lemma round_ties_to_even_lower: "y - 1 / 2 \<le> of_int (round_ties_to_even y)"
  unfolding round_ties_to_even_def Let_def by (auto split: if_splits) linarith+

lemma round_ties_to_even_int: "round_ties_to_even (of_int n) = n"
  by (simp add: round_ties_to_even_def)

lemma ulp_pos: "0 < ulp x"
  by (simp add: ulp_def)

lemma binade_bounds:
  assumes "0 < x"
  shows "x < 2 powr real_of_int (binade x + 1)"
    and "- 1022 \<le> \<lfloor>log 2 x\<rfloor> \<Longrightarrow> 2 powr real_of_int (binade x) \<le> x"
proof -
  let ?e = "\<lfloor>log 2 x\<rfloor>"
  have e: "2 powr real_of_int ?e \<le> x \<and> x < 2 powr real_of_int (?e + 1)"
    using floor_log_eq_powr_iff [of x 2 ?e] assms by simp
  have "?e \<le> binade x" using assms by (simp add: binade_def)
  then have "2 powr real_of_int (?e + 1) \<le> 2 powr real_of_int (binade x + 1)"
    by (intro powr_mono) simp_all
  with e show "x < 2 powr real_of_int (binade x + 1)" by linarith
  show "2 powr real_of_int (binade x) \<le> x" if "- 1022 \<le> ?e"
  proof -
    from that have "binade x = ?e" using assms by (simp add: binade_def)
    with e show ?thesis by simp
  qed
qed

lemma binade_eq:
  assumes "0 < x" and "2 powr real_of_int k \<le> x" and "x < 2 powr real_of_int (k + 1)"
    and "- 1022 \<le> k"
  shows "binade x = k"
proof -
  have "\<lfloor>log 2 x\<rfloor> = k"
    using floor_log_eq_powr_iff [of x 2 k] assms by simp
  then show ?thesis using assms by (simp add: binade_def)
qed

lemma round_nearest_double_eval:
  assumes "0 < x" and "2 powr real_of_int k \<le> x" and "x < 2 powr real_of_int (k + 1)"
    and "- 1022 \<le> k"
  shows "round_nearest_double x
         = of_int (round_ties_to_even (x / 2 powr real_of_int (k - 52)))
           * 2 powr real_of_int (k - 52)"
  using assms(1) binade_eq [OF assms] by (simp add: round_nearest_double_def ulp_def)

lemma round_nearest_double_nonneg:
  assumes "0 \<le> x"
  shows "0 \<le> round_nearest_double x"
proof -
  have "of_int 0 \<le> x / ulp x" using assms ulp_pos [of x] by simp
  then have "0 \<le> round_ties_to_even (x / ulp x)" by (rule round_ties_to_even_ge)
  then show ?thesis using ulp_pos [of x] by (simp add: round_nearest_double_def)
qed

lemma round_nearest_double_le_pow2:
  assumes "0 < x" and "x \<le> 2 powr real_of_int k" and "- 1074 \<le> k"
  shows "round_nearest_double x \<le> 2 powr real_of_int k"
proof -
  have "\<lfloor>log 2 x\<rfloor> \<le> k"
  proof -
    have "log 2 x \<le> real_of_int k"
      using assms(1,2) by (simp add: log_le_iff)
    then show ?thesis by (simp add: floor_le_iff)
  qed
  then have b: "binade x \<le> k + 52" using assms(1,3) by (simp add: binade_def)
  define j where "j = nat (k - (binade x - 52))"
  have j: "real_of_int (k - (binade x - 52)) = real j" using b by (simp add: j_def)
  have "2 powr real_of_int k = 2 powr (real_of_int (k - (binade x - 52)) + real_of_int (binade x - 52))"
    by simp
  also have "\<dots> = 2 powr real j * ulp x"
    unfolding powr_add j ulp_def ..
  also have "\<dots> = of_int (2 ^ j) * ulp x"
    by (simp add: powr_realpow)
  finally have k: "2 powr real_of_int k = of_int (2 ^ j) * ulp x" .
  then have "x / ulp x \<le> of_int (2 ^ j)"
    using assms(2) ulp_pos [of x] by (simp add: field_simps)
  then have "round_ties_to_even (x / ulp x) \<le> 2 ^ j" by (rule round_ties_to_even_le)
  then have "of_int (round_ties_to_even (x / ulp x)) * ulp x \<le> of_int (2 ^ j) * ulp x"
    using ulp_pos [of x] by (intro mult_right_mono) simp_all
  then show ?thesis using assms(1) k by (simp add: round_nearest_double_def)
qed

lemma round_nearest_double_below_one:
  assumes "0 < x" and "x < 1 - 1 / 2 ^ 54"
  shows "round_nearest_double x < 1"
proof (cases "x < 1 / 2")
  case True
  then have "x \<le> 2 powr real_of_int (- 1)" by (simp add: powr_neg_one)
  then have "round_nearest_double x \<le> 2 powr real_of_int (- 1)"
    using assms(1) by (intro round_nearest_double_le_pow2) simp_all
  then show ?thesis by (simp add: powr_neg_one)
next
  case False
  then have "2 powr real_of_int (- 1) \<le> x" by (simp add: powr_neg_one)
  moreover have "x < 2 powr real_of_int (- 1 + 1)" using assms(2) by simp
  ultimately have r: "round_nearest_double x
      = of_int (round_ties_to_even (x / 2 powr real_of_int (- 1 - 52)))
        * 2 powr real_of_int (- 1 - 52)"
    using assms(1) by (intro round_nearest_double_eval) simp_all
  have p: "(2::real) powr - 53 = 1 / 2 ^ 53" by (simp add: powr_neg_numeral)
  let ?y = "x * 2 ^ 53"
  have "?y < 2 ^ 53 - 1 / 2" using assms(2) by (simp add: field_simps)
  then have "of_int (round_ties_to_even ?y) < (2 ^ 53 :: real)"
    using round_ties_to_even_upper [of ?y] by linarith
  then have "of_int (round_ties_to_even ?y) / 2 ^ 53 < (1::real)" by simp
  then show ?thesis by (simp add: r p)
qed

lemma double_times_365_below_one:
  assumes "is_double T" and "0 < T * 365" and "T * 365 < 1"
  shows "T * 365 < 1 - 1 / 2 ^ 54"
proof (cases "T < 1 / 512")
  case True
  then have "T * 365 < 365 / 512" by simp
  then show ?thesis by simp
next
  case False
  have T: "0 < T" using assms(2) by simp
  have "2 powr real_of_int (- 9) \<le> T" using False by (simp add: powr_neg_numeral)
  moreover have "T < 2 powr real_of_int (- 9 + 1)" using assms(3) by (simp add: powr_neg_numeral)
  ultimately have "round_nearest_double T
      = of_int (round_ties_to_even (T / 2 powr real_of_int (- 9 - 52)))
        * 2 powr real_of_int (- 9 - 52)"
    using T by (intro round_nearest_double_eval) simp_all
  then obtain k :: int where k: "T = of_int k / 2 ^ 61"
    using assms(1) by (simp add: is_double_def powr_neg_numeral)
  have "real_of_int (k * 365) < real_of_int (2 ^ 61)"
    using assms(3) by (simp add: k field_simps)
  then have "k * 365 < 2 ^ 61" by (simp only: of_int_less_iff)
  then have "k * 365 \<le> 2 ^ 61 - 347" by simp
  then have "real_of_int (k * 365) \<le> real_of_int (2 ^ 61 - 347)" by (simp only: of_int_le_iff)
  then have "T * 365 \<le> (2 ^ 61 - 347) / 2 ^ 61" by (simp add: k field_simps)
  then show ?thesis by simp
qed

lemma static_cast_times_365_zero:
  assumes "is_double T" and "0 < T * 365" and "T * 365 < 1"
  shows "static_cast_size_t (times_nearest (Fin T) (Fin 365)) = Some 0"
proof -
  have lt: "round_nearest_double (T * 365) < 1"
    using assms by (intro round_nearest_double_below_one double_times_365_below_one)
  have ge: "0 \<le> round_nearest_double (T * 365)"
    using assms(2) by (intro round_nearest_double_nonneg) simp
  from lt ge show ?thesis by (simp add: Let_def floor_eq_iff)
qed

section \<open>The Monte Carlo evaluator\<close>

lemma getRandomValue_sdrop:
  "getRandomValue (rg\<lparr>gen := sdrop n (gen rg)\<rparr>)
   = (nth_sample rg n, rg\<lparr>gen := sdrop (Suc n) (gen rg)\<rparr>)"
  by (simp add: getRandomValue_def nth_sample_def del: sdrop.simps)

lemma random_normal_code:
  "std_sqrt (Fin (- 2) * std_log (Fin u1)) * std_cos (Fin 2 * Fin MATH_PI * Fin u2)
   = box_muller_spec u1 u2"
  by (simp add: box_muller_spec_def ln_le_zero_iff mult_nonneg_nonpos2 mult_le_0_iff)

lemma gbm_step_code:
  "std_exp ((Fin r - Fin 0.5 * std_pow2 (Fin \<sigma>)) * time_step
            + Fin \<sigma> * std_sqrt time_step * Z)
   = gbm_step_spec r \<sigma> time_step Z"
  by (simp add: gbm_step_spec_def)

lemma day_loop_step:
  assumes "day < total_days"
  shows "day_loop params time_step total_days day (price, rg\<lparr>gen := sdrop n (gen rg)\<rparr>)
         = day_loop params time_step total_days (Suc day)
             (price * gbm_step_spec (interest_rate params) (volatility params) time_step
                        (box_muller_spec (nth_sample rg n) (nth_sample rg (Suc n))),
              rg\<lparr>gen := sdrop (Suc (Suc n)) (gen rg)\<rparr>)"
  using assms
  by (subst day_loop.simps)
     (simp only: assms if_True Let_def getRandomValue_sdrop prod.case random_normal_code
        gbm_step_code Suc_eq_plus1)

lemma day_loop_exit:
  "\<not> day < total_days \<Longrightarrow> day_loop params time_step total_days day st = st"
  by (cases st) (simp add: day_loop.simps)

lemma day_loop_path:
  assumes "day \<le> total_days"
  shows "day_loop params time_step total_days day
           (path_spec (underlying_price params) (interest_rate params) (volatility params)
              time_step (\<lambda>j. nth_sample rg (off + j)) day,
            rg\<lparr>gen := sdrop (off + 2 * day) (gen rg)\<rparr>)
         = (path_spec (underlying_price params) (interest_rate params) (volatility params)
              time_step (\<lambda>j. nth_sample rg (off + j)) total_days,
            rg\<lparr>gen := sdrop (off + 2 * total_days) (gen rg)\<rparr>)"
  using assms
proof (induction "total_days - day" arbitrary: day)
  case 0
  then have "day = total_days" by simp
  then show ?case by (simp add: day_loop_exit)
next
  case (Suc k)
  then have lt: "day < total_days" and k: "k = total_days - Suc day"
    and le: "Suc day \<le> total_days" by simp_all
  have "day_loop params time_step total_days day
           (path_spec (underlying_price params) (interest_rate params) (volatility params)
              time_step (\<lambda>j. nth_sample rg (off + j)) day,
            rg\<lparr>gen := sdrop (off + 2 * day) (gen rg)\<rparr>)
        = day_loop params time_step total_days (Suc day)
           (path_spec (underlying_price params) (interest_rate params) (volatility params)
              time_step (\<lambda>j. nth_sample rg (off + j)) (Suc day),
            rg\<lparr>gen := sdrop (off + 2 * Suc day) (gen rg)\<rparr>)"
    by (simp add: day_loop_step [OF lt] del: sdrop.simps)
  also have "\<dots> = (path_spec (underlying_price params) (interest_rate params)
              (volatility params) time_step (\<lambda>j. nth_sample rg (off + j)) total_days,
            rg\<lparr>gen := sdrop (off + 2 * total_days) (gen rg)\<rparr>)"
    by (rule Suc.hyps(1) [OF k le])
  finally show ?case .
qed

lemma sim_loop_step:
  assumes "i < number_of_simulations params"
  shows "sim_loop params time_step total_days i
           (tot, rg\<lparr>gen := sdrop (2 * total_days * i) (gen rg)\<rparr>)
         = sim_loop params time_step total_days (Suc i)
             (tot + payoff_spec (option_type params) (strike_price params)
                        (path_spec (underlying_price params) (interest_rate params)
                           (volatility params) time_step
                           (\<lambda>j. nth_sample rg (2 * total_days * i + j)) total_days),
              rg\<lparr>gen := sdrop (2 * total_days * Suc i) (gen rg)\<rparr>)"
proof -
  have days: "day_loop params time_step total_days 0
           (Fin (underlying_price params), rg\<lparr>gen := sdrop (2 * total_days * i) (gen rg)\<rparr>)
         = (path_spec (underlying_price params) (interest_rate params) (volatility params)
              time_step (\<lambda>j. nth_sample rg (2 * total_days * i + j)) total_days,
            rg\<lparr>gen := sdrop (2 * total_days * i + 2 * total_days) (gen rg)\<rparr>)"
    using day_loop_path [of 0 total_days params time_step rg "2 * total_days * i"] by simp
  have payoff: "(if option_type params = Call
                then std_max_double (price - Fin (strike_price params)) (Fin 0)
                else if option_type params = Put
                then std_max_double (Fin (strike_price params) - price) (Fin 0)
                else Fin 0) = payoff_spec (option_type params) (strike_price params) price"
    for price
    by (cases "option_type params") (simp_all add: payoff_spec_def)
  have idx: "2 * total_days * i + 2 * total_days = 2 * total_days * Suc i" by simp
  show ?thesis
    by (subst sim_loop.simps)
       (simp only: assms if_True Let_def days prod.case payoff idx Suc_eq_plus1)
qed

lemma sim_loop_exit:
  "\<not> i < number_of_simulations params \<Longrightarrow> sim_loop params time_step total_days i st = st"
  by (cases st) (simp add: sim_loop.simps)

lemma sim_loop_total:
  assumes "i \<le> number_of_simulations params"
  shows "sim_loop params time_step total_days i
           (total_payoff_spec (option_type params) (underlying_price params)
              (strike_price params) (interest_rate params) (volatility params) time_step
              total_days (nth_sample rg) i,
            rg\<lparr>gen := sdrop (2 * total_days * i) (gen rg)\<rparr>)
         = (total_payoff_spec (option_type params) (underlying_price params)
              (strike_price params) (interest_rate params) (volatility params) time_step
              total_days (nth_sample rg) (number_of_simulations params),
            rg\<lparr>gen := sdrop (2 * total_days * number_of_simulations params) (gen rg)\<rparr>)"
  using assms
proof (induction "number_of_simulations params - i" arbitrary: i)
  case 0
  then have "i = number_of_simulations params" by simp
  then show ?case by (simp add: sim_loop_exit)
next
  case (Suc k)
  then have lt: "i < number_of_simulations params"
    and k: "k = number_of_simulations params - Suc i"
    and le: "Suc i \<le> number_of_simulations params" by simp_all
  show ?case
    by (simp only: sim_loop_step [OF lt] total_payoff_spec.simps(2) [symmetric]
        Suc.hyps(1) [OF k le])
qed

lemma calculateMonteCarlo_days:
  "calculateMonteCarlo params seeded
   = map_option
       (\<lambda>total_days.
          monte_carlo_days_spec (number_of_simulations params) (interest_rate params)
            (underlying_price params) (strike_price params) (time params)
            (volatility params) (option_type params) total_days
            (nth_sample (RandomGenerator 0 1 seeded)))
       (static_cast_size_t (times_nearest (Fin (time params)) (Fin 365)))"
proof (cases "static_cast_size_t (times_nearest (Fin (time params)) (Fin 365))")
  case None
  then show ?thesis by (simp add: calculateMonteCarlo_def)
next
  case (Some total_days)
  have start: "(Fin 0, RandomGenerator 0 1 seeded)
     = (total_payoff_spec (option_type params) (underlying_price params)
              (strike_price params) (interest_rate params) (volatility params) time_step
              total_days (nth_sample (RandomGenerator 0 1 seeded)) 0,
        (RandomGenerator 0 1 seeded)
          \<lparr>gen := sdrop (2 * total_days * 0) (gen (RandomGenerator 0 1 seeded))\<rparr>)"
    for time_step
    by (simp add: RandomGenerator_def)
  show ?thesis
    unfolding calculateMonteCarlo_def Let_def Some option.case
    by (subst start, subst sim_loop_total)
       (simp_all add: monte_carlo_days_spec_def)
qed

section \<open>The uniform random source\<close>

lemma generate_canonical_range: "0 \<le> generate_canonical w \<and> generate_canonical w < 1"
proof -
  have "unat w < 2 ^ 64" using unsigned_less [of w, where ?'a = nat] by simp
  then have "real (unat w) < real (2 ^ 64)" by (simp only: of_nat_less_iff)
  then show ?thesis by (simp add: generate_canonical_def del: of_nat_unat)
qed

lemma generate_canonical_zero: "(generate_canonical w = 0) = (w = 0)"
  by (simp add: generate_canonical_def unsigned_eq_0_iff)

lemma nth_sample_unit:
  "nth_sample (RandomGenerator 0 1 seeded) n = generate_canonical (seeded !! n)"
  by (simp add: nth_sample_def getRandomValue_def RandomGenerator_def std_min_def std_max_def
      uniform_real_distribution_def)

text \<open>
  C6, as the code has it. Every sample drawn from the generator that
  \<open>calculateMonteCarlo\<close> constructs with the bounds 0.0 and 1.0 lies in the half-open
  interval \<open>[0, 1)\<close>.
\<close>

theorem uniform_samples_half_open:
  "0 \<le> nth_sample (RandomGenerator 0 1 seeded) n
   \<and> nth_sample (RandomGenerator 0 1 seeded) n < 1"
  using generate_canonical_range [of "seeded !! n"]
  by (simp add: nth_sample_unit)

text \<open>
  C6, as the claim states it, fails: the interval of the distribution contains 0. When
  the engine returns the word 0, here in its third draw, which is the \<open>u1\<close> of the second
  day, the sample is 0. It is not in the open interval \<open>(0, 1)\<close>, and its logarithm is not
  finite.
\<close>

theorem uniform_sample_zero_counterexample:
  "nth_sample (RandomGenerator 0 1
       (9223372036854775808 ## 4611686018427387904 ## 0 ## sconst 9223372036854775808)) 2 = 0
   \<and> \<not> (0 < nth_sample (RandomGenerator 0 1
              (9223372036854775808 ## 4611686018427387904 ## 0 ## sconst 9223372036854775808)) 2
        \<and> nth_sample (RandomGenerator 0 1
              (9223372036854775808 ## 4611686018427387904 ## 0 ## sconst 9223372036854775808)) 2
          < 1)
   \<and> std_log (Fin (nth_sample (RandomGenerator 0 1
       (9223372036854775808 ## 4611686018427387904 ## 0 ## sconst 9223372036854775808)) 2))
     = NonFin"
  by (simp add: nth_sample_unit generate_canonical_def numeral_2_eq_2)

lemma uniform_real_distribution_range:
  assumes "a \<le> b"
  shows "a \<le> uniform_real_distribution a b w" and "uniform_real_distribution a b w \<le> b"
    and "a < b \<Longrightarrow> uniform_real_distribution a b w < b"
proof -
  let ?c = "generate_canonical w"
  have c: "0 \<le> ?c" "?c < 1" using generate_canonical_range [of w] by simp_all
  have d: "0 \<le> b - a" using assms by simp
  show "a \<le> uniform_real_distribution a b w"
    using c(1) d by (simp add: uniform_real_distribution_def)
  have "?c * (b - a) \<le> 1 * (b - a)"
    using c(2) d by (intro mult_right_mono) simp_all
  then show "uniform_real_distribution a b w \<le> b"
    by (simp add: uniform_real_distribution_def)
  show "uniform_real_distribution a b w < b" if "a < b"
  proof -
    have "?c * (b - a) < 1 * (b - a)"
      using c(2) that by (intro mult_strict_right_mono) simp_all
    then show ?thesis by (simp add: uniform_real_distribution_def)
  qed
qed

lemma uniform_int_distribution_range:
  assumes "a \<le> b"
  shows "a \<le> uniform_int_distribution a b w \<and> uniform_int_distribution a b w \<le> b"
proof -
  have pos: "0 < b - a + 1" using assms by simp
  have "0 \<le> int (unat w) mod (b - a + 1)" and "int (unat w) mod (b - a + 1) < b - a + 1"
    using pos by (rule pos_mod_sign, rule pos_mod_bound)
  then show ?thesis unfolding uniform_int_distribution_def by linarith
qed

lemma std_min_max: "std_min a b = min a b" "std_max a b = max a b"
  by (auto simp add: std_min_def std_max_def min_def max_def)

text \<open>
  C8. The constructor of \<open>RandomGenerator\<close> does not depend on the order of its two
  bounds: it keeps their minimum and their maximum. Every value of the floating instance
  lies between them, and below the maximum when the bounds differ; every value of the
  integer instance lies between them, both included.
\<close>

theorem RandomGenerator_order_independent:
  "RandomGenerator a b seeded = RandomGenerator b a seeded
   \<and> distribution_a (RandomGenerator a b seeded) = min a b
   \<and> distribution_b (RandomGenerator a b seeded) = max a b
   \<and> min x y \<le> nth_sample (RandomGenerator x y seeded) n
   \<and> nth_sample (RandomGenerator x y seeded) n \<le> max x y
   \<and> (x \<noteq> y \<longrightarrow> nth_sample (RandomGenerator x y seeded) n < max x y)
   \<and> min i j \<le> nth_sample_int (RandomGenerator i j seeded) n
   \<and> nth_sample_int (RandomGenerator i j seeded) n \<le> max i j"
proof -
  have 1: "RandomGenerator a b seeded = RandomGenerator b a seeded"
    by (simp add: RandomGenerator_def std_min_max min.commute max.commute)
  have 2: "nth_sample (RandomGenerator x y seeded) n
           = uniform_real_distribution (min x y) (max x y) (seeded !! n)"
    by (simp add: nth_sample_def getRandomValue_def RandomGenerator_def std_min_max)
  have 3: "nth_sample_int (RandomGenerator i j seeded) n
           = uniform_int_distribution (min i j) (max i j) (seeded !! n)"
    by (simp add: nth_sample_int_def getRandomValue_int_def RandomGenerator_def std_min_max)
  have 4: "distribution_a (RandomGenerator a b seeded) = min a b"
    "distribution_b (RandomGenerator a b seeded) = max a b"
    by (simp_all add: RandomGenerator_def std_min_max)
  have le: "min x y \<le> max x y" "min i j \<le> max i j" by simp_all
  have lt: "x \<noteq> y \<Longrightarrow> min x y < max x y" by (simp add: min_def max_def)
  note r = uniform_real_distribution_range [OF le(1), of "seeded !! n"]
  note z = uniform_int_distribution_range [OF le(2), of "seeded !! n"]
  show ?thesis
    unfolding 2 3 4
  proof (intro conjI impI)
    show "RandomGenerator a b seeded = RandomGenerator b a seeded" by (rule 1)
    show "x \<noteq> y \<Longrightarrow> uniform_real_distribution (min x y) (max x y) (seeded !! n) < max x y"
      by (rule r(3) [OF lt])
  qed (simp_all add: r(1,2) z)
qed

theorem RandomGenerator_order_independent_witness:
  "RandomGenerator (1::real) 0 (sconst 5) = RandomGenerator 0 1 (sconst 5)
   \<and> distribution_a (RandomGenerator (1::real) 0 (sconst 5)) = 0
   \<and> distribution_b (RandomGenerator (1::real) 0 (sconst 5)) = 1
   \<and> 0 \<le> nth_sample (RandomGenerator 1 0 (sconst 5)) 3
   \<and> nth_sample (RandomGenerator 1 0 (sconst 5)) 3 < 1
   \<and> 1 \<le> nth_sample_int (RandomGenerator 6 1 (sconst 5)) 3
   \<and> nth_sample_int (RandomGenerator 6 1 (sconst 5)) 3 \<le> 6"
  using RandomGenerator_order_independent [of "1::real" 0 "sconst 5" 1 0 3 6 1]
  by auto

section \<open>The Monte Carlo algorithm\<close>

lemma static_cast_times_365:
  assumes "0 \<le> T" and "T * 365 \<le> 2 ^ 63"
  shows "static_cast_size_t (times_nearest (Fin T) (Fin 365))
         = Some (nat \<lfloor>round_nearest_double (T * 365)\<rfloor>)"
proof -
  let ?r = "round_nearest_double (T * 365)"
  have ge: "0 \<le> ?r" using assms(1) by (intro round_nearest_double_nonneg) simp
  have le: "?r \<le> 2 ^ 63"
  proof (cases "T * 365 = 0")
    case True
    then show ?thesis by (simp add: round_nearest_double_def)
  next
    case False
    then have "0 < T * 365" using assms(1) by simp
    moreover have "T * 365 \<le> 2 powr real_of_int 63" using assms(2) by simp
    ultimately have "?r \<le> 2 powr real_of_int 63"
      by (intro round_nearest_double_le_pow2) simp_all
    then show ?thesis by simp
  qed
  have "\<bar>?r\<bar> < 2 ^ 1024"
  proof -
    have "(2::real) ^ 63 < 2 ^ 1024" by (intro power_strict_increasing) simp_all
    with ge le show ?thesis by linarith
  qed
  moreover have "?r < 2 ^ 64"
  proof -
    have "(2::real) ^ 63 < 2 ^ 64" by simp
    with le show ?thesis by linarith
  qed
  ultimately show ?thesis using ge by (simp add: Let_def)
qed

lemma round_nearest_double_219:
  "round_nearest_double (5404319552844595 / 9007199254740992 * 365) = 219"
proof -
  let ?x = "5404319552844595 / 9007199254740992 * 365 :: real"
  have "round_nearest_double ?x
        = of_int (round_ties_to_even (?x / 2 powr real_of_int (7 - 52)))
          * 2 powr real_of_int (7 - 52)"
    by (intro round_nearest_double_eval) simp_all
  also have "\<dots> = 219"
    by (simp add: powr_neg_numeral round_ties_to_even_def Let_def)
  finally show ?thesis .
qed

lemma floor_218: "\<lfloor>5404319552844595 / 9007199254740992 * 365 :: real\<rfloor> = 218"
  by (simp add: floor_eq_iff)

lemma is_double_06: "is_double (5404319552844595 / 9007199254740992)"
proof -
  let ?x = "5404319552844595 / 9007199254740992 :: real"
  have "round_nearest_double ?x
        = of_int (round_ties_to_even (?x / 2 powr real_of_int (- 1 - 52)))
          * 2 powr real_of_int (- 1 - 52)"
    by (intro round_nearest_double_eval) (simp_all add: powr_neg_one)
  also have "\<dots> = ?x"
    by (simp add: powr_neg_numeral round_ties_to_even_def Let_def)
  finally show ?thesis by (simp add: is_double_def)
qed

lemma cycle_two_snth: "cycle [a, b] !! n = (if even n then a else b)"
proof -
  have "cycle [a, b] !! n = shd (sdrop n (cycle [a, b]))" by simp
  also have "\<dots> = hd (rotate (n mod 2) [a, b])"
    by (simp add: sdrop_cycle numeral_2_eq_2)
  also have "\<dots> = (if even n then a else b)"
  proof (cases "even n")
    case True
    then have "n mod 2 = 0" by simp
    then show ?thesis using True by simp
  next
    case False
    then have "n mod 2 = 1" by (simp add: odd_iff_mod_2_eq_one)
    then show ?thesis using False by simp
  qed
  finally show ?thesis .
qed

lemma alternating_sample:
  "nth_sample (RandomGenerator 0 1 (cycle [9223372036854775808, 0])) n
   = (if even n then 1 / 2 else 0)"
  by (simp add: nth_sample_unit cycle_two_snth generate_canonical_def)

lemma box_muller_half_zero: "box_muller_spec (1 / 2) 0 = Fin (sqrt (2 * ln 2))"
  by (simp add: box_muller_spec_def ln_div)

lemma path_spec_same_step:
  assumes "\<And>k. box_muller_spec (u (2 * k)) (u (2 * k + 1)) = Fin z" and "0 \<le> t"
  shows "path_spec S r \<sigma> (Fin t) u d
         = Fin (S * exp ((r - \<sigma>\<^sup>2 / 2) * t + \<sigma> * sqrt t * z) ^ d)"
  using assms by (induction d) (simp_all add: gbm_step_spec_def mult.assoc)

lemma total_payoff_same_path:
  assumes "\<And>i. path_spec S r \<sigma> time_step (\<lambda>j. u (2 * total_days * i + j)) total_days = Fin p"
    and "payoff_spec ty K (Fin p) = Fin v"
  shows "total_payoff_spec ty S K r \<sigma> time_step total_days u n = Fin (real n * v)"
  using assms by (induction n) (simp_all add: algebra_simps)

lemma monte_carlo_alternating:
  assumes "1 \<le> N" and "1 \<le> d" and "0 \<le> T"
    and "payoff_spec ty K
           (Fin (S * exp ((r - \<sigma>\<^sup>2 / 2) * (T / real d)
                           + \<sigma> * sqrt (T / real d) * sqrt (2 * ln 2)) ^ d)) = Fin v"
  shows "monte_carlo_days_spec N r S K T \<sigma> ty d
           (nth_sample (RandomGenerator 0 1 (cycle [9223372036854775808, 0])))
         = Fin (v * exp (- (r * T)))"
proof -
  let ?u = "nth_sample (RandomGenerator 0 1 (cycle [9223372036854775808, 0]))"
  have t: "0 \<le> T / real d" using assms(2,3) by simp
  have "path_spec S r \<sigma> (Fin (T / real d)) (\<lambda>j. ?u (2 * d * i + j)) d
        = Fin (S * exp ((r - \<sigma>\<^sup>2 / 2) * (T / real d)
                         + \<sigma> * sqrt (T / real d) * sqrt (2 * ln 2)) ^ d)" for i
    by (rule path_spec_same_step [OF _ t]) (simp add: alternating_sample box_muller_half_zero)
  then have "total_payoff_spec ty S K r \<sigma> (Fin (T / real d)) d ?u N = Fin (real N * v)"
    using assms(4) by (rule total_payoff_same_path)
  then show ?thesis using assms(1,2) by (simp add: monte_carlo_days_spec_def)
qed

lemma round_nearest_double_365_128: "round_nearest_double (365 / 128) = 365 / 128"
proof -
  let ?x = "365 / 128 :: real"
  have "round_nearest_double ?x
        = of_int (round_ties_to_even (?x / 2 powr real_of_int (1 - 52)))
          * 2 powr real_of_int (1 - 52)"
    by (intro round_nearest_double_eval) simp_all
  also have "\<dots> = 365 / 128"
    by (simp add: powr_neg_numeral round_ties_to_even_def Let_def)
  finally show ?thesis .
qed

lemma step_power:
  assumes "1 \<le> d" and "0 \<le> T"
  shows "exp ((r - \<sigma>\<^sup>2 / 2) * (T / real d) + \<sigma> * sqrt (T / real d) * z) ^ d
         = exp ((r - \<sigma>\<^sup>2 / 2) * T + \<sigma> * sqrt (real d * T) * z)"
proof -
  have d: "0 < real d" using assms(1) by simp
  have "real d * sqrt (T / real d) = sqrt (real d * real d) * sqrt (T / real d)"
    by simp
  also have "\<dots> = sqrt (real d * real d * (T / real d))"
    by (simp only: real_sqrt_mult)
  also have "real d * real d * (T / real d) = real d * T" using d by simp
  finally have s: "real d * sqrt (T / real d) = sqrt (real d * T)" .
  have "exp ((r - \<sigma>\<^sup>2 / 2) * (T / real d) + \<sigma> * sqrt (T / real d) * z) ^ d
        = exp (real d * ((r - \<sigma>\<^sup>2 / 2) * (T / real d) + \<sigma> * sqrt (T / real d) * z))"
    by (simp only: exp_of_nat_mult)
  also have "real d * ((r - \<sigma>\<^sup>2 / 2) * (T / real d) + \<sigma> * sqrt (T / real d) * z)
             = (r - \<sigma>\<^sup>2 / 2) * T + \<sigma> * (real d * sqrt (T / real d)) * z"
    using d by (simp add: field_simps)
  finally show ?thesis by (simp only: s)
qed

lemma monte_carlo_alternating_call:
  assumes "1 \<le> d" and "0 \<le> T" and "0 \<le> r - \<sigma>\<^sup>2 / 2" and "0 \<le> \<sigma>" and "0 \<le> S" and "K \<le> S"
  shows "monte_carlo_days_spec 1 r S K T \<sigma> Call d
           (nth_sample (RandomGenerator 0 1 (cycle [9223372036854775808, 0])))
         = Fin ((S * exp ((r - \<sigma>\<^sup>2 / 2) * T + \<sigma> * sqrt (real d * T) * sqrt (2 * ln 2)) - K)
                * exp (- (r * T)))"
proof -
  let ?x = "(r - \<sigma>\<^sup>2 / 2) * T + \<sigma> * sqrt (real d * T) * sqrt (2 * ln 2)"
  have "0 \<le> ?x" using assms(1-4) by (intro add_nonneg_nonneg mult_nonneg_nonneg) simp_all
  then have "1 \<le> exp ?x" by simp
  then have "S * 1 \<le> S * exp ?x" using assms(5) by (intro mult_left_mono)
  then have "K \<le> S * exp ?x" using assms(6) by simp
  then have "payoff_spec Call K (Fin (S * exp ?x)) = Fin (S * exp ?x - K)"
    by (simp add: payoff_spec_def std_max_def)
  then have p: "payoff_spec Call K
           (Fin (S * exp ((r - \<sigma>\<^sup>2 / 2) * (T / real d)
                           + \<sigma> * sqrt (T / real d) * sqrt (2 * ln 2)) ^ d))
         = Fin (S * exp ?x - K)"
    by (simp only: step_power [OF assms(1,2)])
  show ?thesis
    by (rule monte_carlo_alternating [OF _ assms(1,2) p]) simp
qed

text \<open>
  C5, as the code has it. \<open>calculateMonteCarlo\<close> computes the algorithm of the
  specification, with \<open>total_days\<close> the integer part of the double product \<open>T \<cdot> 365\<close>, that
  is of the product rounded to the nearest double, and \<open>time_step = T / total_days\<close>: each
  of the \<open>number_of_simulations\<close> paths starts from \<open>underlying_price\<close> and takes
  \<open>total_days\<close> steps \<open>exp (drift + diffusion)\<close>, each with the next two samples of the
  generator; the payoffs \<open>max (price - K) 0\<close> (Call) or \<open>max (K - price) 0\<close> (Put) are added
  up, and the result is \<open>(total_payoff / number_of_simulations) \<cdot> exp (- r T)\<close>. The
  conversion of the product to \<open>std::size_t\<close> is defined for \<open>0 \<le> T\<close> and \<open>T \<cdot> 365 \<le> 2^63\<close>.
\<close>

theorem calculateMonteCarlo_algorithm:
  assumes "0 \<le> time params" and "time params * 365 \<le> 2 ^ 63"
  shows "calculateMonteCarlo params seeded
         = Some (monte_carlo_spec (number_of_simulations params) (interest_rate params)
                   (underlying_price params) (strike_price params) (time params)
                   (volatility params) (option_type params)
                   (nth_sample (RandomGenerator 0 1 seeded)))"
  by (simp add: calculateMonteCarlo_days static_cast_times_365 [OF assms] monte_carlo_spec_def
      del: times_nearest.simps static_cast_size_t.simps)

text \<open>
  An evaluation with finite values: \<open>T = 1/128\<close> gives two days, and with an engine that
  returns the words \<open>2^63\<close> and \<open>0\<close> in turn every day has \<open>u1 = 1/2\<close>, \<open>u2 = 0\<close> and
  \<open>Z = \<surd>(2 ln 2)\<close>. Each of the two paths takes two equal steps, and the result is the mean
  of the two payoffs, discounted.
\<close>

theorem calculateMonteCarlo_algorithm_witness:
  "let step = exp ((0.25 - 0.5\<^sup>2 / 2) * (1 / 128 / 2)
                   + 0.5 * sqrt (1 / 128 / 2) * sqrt (2 * ln 2));
       payoff = max (100 * step * step - 105) 0
   in calculateMonteCarlo
        \<lparr>interest_rate = 0.25, underlying_price = 100, strike_price = 105, time = 1 / 128,
         volatility = 0.5, option_type = Call, paid_price = 5,
         number_of_simulations = 2\<rparr> (cycle [9223372036854775808, 0])
      = Some (Fin ((payoff + payoff) / 2 * exp (- (0.25 * (1 / 128)))))"
proof -
  have days: "nat \<lfloor>round_nearest_double (365 / 128)\<rfloor> = 2"
    by (simp only: round_nearest_double_365_128) simp
  have "monte_carlo_days_spec 2 0.25 100 105 (1 / 128) 0.5 Call 2
          (nth_sample (RandomGenerator 0 1 (cycle [9223372036854775808, 0])))
        = Fin (max (100 * exp ((0.25 - 0.5\<^sup>2 / 2) * (1 / 128 / real 2)
                   + 0.5 * sqrt (1 / 128 / real 2) * sqrt (2 * ln 2)) ^ 2 - 105) 0
               * exp (- (0.25 * (1 / 128))))"
    by (rule monte_carlo_alternating) (simp_all add: payoff_spec_def std_max_def max_def)
  then show ?thesis
    using calculateMonteCarlo_algorithm [of
        "\<lparr>interest_rate = 0.25, underlying_price = 100, strike_price = 105, time = 1 / 128,
          volatility = 0.5, option_type = Call, paid_price = 5,
          number_of_simulations = 2\<rparr>" "cycle [9223372036854775808, 0]"]
    by (simp add: monte_carlo_spec_def days Let_def power2_eq_square mult.assoc)
qed

text \<open>
  C5, as the claim states it, with \<open>total_days\<close> the integer part \<open>\<lfloor>T \<cdot> 365\<rfloor>\<close> of the exact
  product, fails. For the double nearest to 0.6, which is \<open>5404319552844595 / 2^53\<close>, the
  exact product lies below 219 and its integer part is 218, while the double product is
  219.0 and the code runs 219 days, with another \<open>time_step\<close>. With one path and the
  engine above, the result of the code is not the result of the algorithm run for
  \<open>\<lfloor>T \<cdot> 365\<rfloor>\<close> days.
\<close>

theorem calculateMonteCarlo_exact_floor_counterexample:
  "is_double (5404319552844595 / 9007199254740992)
   \<and> static_cast_size_t (times_nearest (Fin (5404319552844595 / 9007199254740992)) (Fin 365))
       = Some 219
   \<and> nat \<lfloor>5404319552844595 / 9007199254740992 * 365 :: real\<rfloor> = 218
   \<and> calculateMonteCarlo
        \<lparr>interest_rate = 0.25, underlying_price = 100, strike_price = 50,
         time = 5404319552844595 / 9007199254740992,
         volatility = 0.5, option_type = Call, paid_price = 5,
         number_of_simulations = 1\<rparr> (cycle [9223372036854775808, 0])
       \<noteq> Some (monte_carlo_days_spec 1 0.25 100 50 (5404319552844595 / 9007199254740992) 0.5
                  Call (nat \<lfloor>5404319552844595 / 9007199254740992 * 365 :: real\<rfloor>)
                  (nth_sample (RandomGenerator 0 1 (cycle [9223372036854775808, 0]))))"
proof -
  let ?T = "5404319552844595 / 9007199254740992 :: real"
  let ?u = "nth_sample (RandomGenerator 0 1 (cycle [9223372036854775808, 0]))"
  let ?x = "\<lambda>d::nat. (0.25 - 0.5\<^sup>2 / 2) * ?T + 0.5 * sqrt (real d * ?T) * sqrt (2 * ln 2)"
  have "static_cast_size_t (times_nearest (Fin ?T) (Fin 365))
        = Some (nat \<lfloor>round_nearest_double (?T * 365)\<rfloor>)"
    by (rule static_cast_times_365) simp_all
  also have "\<dots> = Some 219"
    by (simp only: round_nearest_double_219) simp
  finally have cast: "static_cast_size_t (times_nearest (Fin ?T) (Fin 365)) = Some 219" .
  have floor: "nat \<lfloor>?T * 365\<rfloor> = 218"
    by (simp only: floor_218)
  have spec: "monte_carlo_days_spec 1 0.25 100 50 ?T 0.5 Call d ?u
              = Fin ((100 * exp (?x d) - 50) * exp (- (0.25 * ?T)))" if "1 \<le> d" for d
    using that by (intro monte_carlo_alternating_call) (simp_all add: power2_eq_square)
  have code: "calculateMonteCarlo
        \<lparr>interest_rate = 0.25, underlying_price = 100, strike_price = 50, time = ?T,
         volatility = 0.5, option_type = Call, paid_price = 5,
         number_of_simulations = 1\<rparr> (cycle [9223372036854775808, 0])
       = Some (monte_carlo_days_spec 1 0.25 100 50 ?T 0.5 Call 219 ?u)"
    by (simp only: calculateMonteCarlo_days BlackScholesParams.simps MonteCarloParams.simps
        cast option.map)
  have "sqrt (real (218::nat) * ?T) < sqrt (real (219::nat) * ?T)" by simp
  moreover have "0 < sqrt (2 * ln 2 :: real)" by simp
  ultimately have "sqrt (real (218::nat) * ?T) * sqrt (2 * ln 2)
                   < sqrt (real (219::nat) * ?T) * sqrt (2 * ln 2)"
    by (rule mult_strict_right_mono)
  then have "?x 218 < ?x 219" by simp
  then have "exp (?x 218) < exp (?x 219)" by simp
  then have "(100 * exp (?x 219) - 50) * exp (- (0.25 * ?T))
             \<noteq> (100 * exp (?x 218) - 50) * exp (- (0.25 * ?T))"
    by simp
  moreover have "monte_carlo_days_spec 1 0.25 100 50 ?T 0.5 Call 219 ?u
                 = Fin ((100 * exp (?x 219) - 50) * exp (- (0.25 * ?T)))"
    by (rule spec) simp
  moreover have "monte_carlo_days_spec 1 0.25 100 50 ?T 0.5 Call 218 ?u
                 = Fin ((100 * exp (?x 218) - 50) * exp (- (0.25 * ?T)))"
    by (rule spec) simp
  ultimately have "monte_carlo_days_spec 1 0.25 100 50 ?T 0.5 Call 219 ?u
             \<noteq> monte_carlo_days_spec 1 0.25 100 50 ?T 0.5 Call 218 ?u"
    by (simp only: double.inject not_False_eq_True)
  with code floor cast is_double_06 show ?thesis by (simp only: option.inject) simp
qed

lemma total_payoff_spec_no_days:
  assumes "payoff_spec ty K (Fin S) = Fin v"
  shows "total_payoff_spec ty S K r \<sigma> time_step 0 u i = Fin (real i * v)"
  using assms by (induction i) (simp_all add: algebra_simps)

lemma monte_carlo_no_days:
  assumes "1 \<le> N" and "payoff_spec ty K (Fin S) = Fin v"
  shows "monte_carlo_days_spec N r S K T \<sigma> ty 0 u = Fin (v * exp (- (r * T)))"
  using assms by (simp add: monte_carlo_days_spec_def total_payoff_spec_no_days)

lemma is_double_1_1024: "is_double (1 / 1024)"
proof -
  let ?x = "1 / 1024 :: real"
  have "round_nearest_double ?x
        = of_int (round_ties_to_even (?x / 2 powr real_of_int (- 10 - 52)))
          * 2 powr real_of_int (- 10 - 52)"
    by (intro round_nearest_double_eval) (simp_all add: powr_neg_numeral)
  also have "\<dots> = ?x"
    by (simp add: powr_neg_numeral round_ties_to_even_def Let_def)
  finally show ?thesis by (simp add: is_double_def)
qed

text \<open>
  C9. With at least one simulation and \<open>0 < T \<cdot> 365 < 1\<close> there are no days: whatever the
  engine returns, the result is \<open>max (S - K) 0 \<cdot> exp (- r T)\<close> for a Call and
  \<open>max (K - S) 0 \<cdot> exp (- r T)\<close> for a Put. The \<open>time_step\<close>, a division by zero, is not used.
  The field \<open>time\<close> is a double: for a double \<open>T\<close> with \<open>T \<cdot> 365 < 1\<close> the double product is
  below 1 as well.
\<close>

theorem calculateMonteCarlo_zero_days:
  assumes "is_double T" and "1 \<le> N" and "0 < T * 365" and "T * 365 < 1"
  shows "calculateMonteCarlo
           \<lparr>interest_rate = r, underlying_price = S, strike_price = K, time = T,
            volatility = \<sigma>, option_type = Call, paid_price = c,
            number_of_simulations = N\<rparr> seeded
         = Some (Fin (max (S - K) 0 * exp (- (r * T))))
       \<and> calculateMonteCarlo
           \<lparr>interest_rate = r, underlying_price = S, strike_price = K, time = T,
            volatility = \<sigma>, option_type = Put, paid_price = c,
            number_of_simulations = N\<rparr> seeded
         = Some (Fin (max (K - S) 0 * exp (- (r * T))))"
proof -
  have days: "static_cast_size_t (times_nearest (Fin T) (Fin 365)) = Some 0"
    using assms(1,3,4) by (rule static_cast_times_365_zero)
  have call: "payoff_spec Call K (Fin S) = Fin (max (S - K) 0)"
    and put: "payoff_spec Put K (Fin S) = Fin (max (K - S) 0)"
    by (simp_all add: payoff_spec_def std_max_def max_def)
  show ?thesis
    by (simp add: calculateMonteCarlo_days days
        monte_carlo_no_days [OF assms(2) call] monte_carlo_no_days [OF assms(2) put]
        del: static_cast_size_t.simps times_nearest.simps)
qed

theorem calculateMonteCarlo_zero_days_witness:
  "is_double (1 / 1024)
   \<and> calculateMonteCarlo
           \<lparr>interest_rate = 0.2, underlying_price = 110, strike_price = 105, time = 1 / 1024,
            volatility = 0.3, option_type = Call, paid_price = 5,
            number_of_simulations = 1000\<rparr> (cycle [9223372036854775808, 0])
         = Some (Fin (5 * exp (- (0.2 * (1 / 1024)))))
   \<and> calculateMonteCarlo
           \<lparr>interest_rate = 0.2, underlying_price = 110, strike_price = 105, time = 1 / 1024,
            volatility = 0.3, option_type = Put, paid_price = 5,
            number_of_simulations = 1000\<rparr> (cycle [9223372036854775808, 0])
         = Some (Fin 0)"
  using calculateMonteCarlo_zero_days [of "1 / 1024" 1000 "0.2" 110 105 "0.3" 5
      "cycle [9223372036854775808, 0]"] is_double_1_1024
  by simp

section \<open>The field \<open>paid_price\<close>\<close>

text \<open>
  C10. The results of \<open>calculateBlackScholes\<close>, \<open>calculateGreeks\<close> and
  \<open>calculateMonteCarlo\<close> (for the same seeded engine) do not depend on \<open>paid_price\<close>.
\<close>

theorem paid_price_independence:
  "calculateBlackScholes (bs_params\<lparr>paid_price := x\<rparr>) = calculateBlackScholes bs_params
   \<and> calculateGreeks (greeks_params\<lparr>paid_price := x\<rparr>) greek
       = calculateGreeks greeks_params greek
   \<and> calculateMonteCarlo (mtc_params\<lparr>paid_price := x\<rparr>) seeded
       = calculateMonteCarlo mtc_params seeded"
proof (intro conjI)
  show "calculateBlackScholes (bs_params\<lparr>paid_price := x\<rparr>)
        = calculateBlackScholes bs_params"
    by (simp add: calculateBlackScholes_def split: OptionType.split)
  show "calculateGreeks (greeks_params\<lparr>paid_price := x\<rparr>) greek
        = calculateGreeks greeks_params greek"
    by (simp add: calculateGreeks_def Let_def split: Greeks.split)
  show "calculateMonteCarlo (mtc_params\<lparr>paid_price := x\<rparr>) seeded
        = calculateMonteCarlo mtc_params seeded"
    by (simp add: calculateMonteCarlo_days)
qed

section \<open>The payoff primitive\<close>

text \<open>
  C7. For every option and spot price, \<open>calculatePayoff\<close> returns a finite value:
  \<open>max (spot - strike) 0 - premium\<close> for a Call and \<open>max (strike - spot) 0 - premium\<close>
  for a Put. In particular a Call with strike 100 and premium 5 pays 15 at spot 120, a Put
  with strike 100 and premium 5 pays 15 at spot 80, and at spot = strike both pay
  \<open>- premium\<close>.
\<close>

theorem calculatePayoff_spec:
  "calculatePayoff \<lparr>strike = k, premium = p, Option_type = Call\<rparr> s = Fin (max (s - k) 0 - p)
   \<and> calculatePayoff \<lparr>strike = k, premium = p, Option_type = Put\<rparr> s = Fin (max (k - s) 0 - p)
   \<and> calculatePayoff \<lparr>strike = 100, premium = 5, Option_type = Call\<rparr> 120 = Fin 15
   \<and> calculatePayoff \<lparr>strike = 100, premium = 5, Option_type = Put\<rparr> 80 = Fin 15
   \<and> calculatePayoff \<lparr>strike = k, premium = p, Option_type = Call\<rparr> k = Fin (- p)
   \<and> calculatePayoff \<lparr>strike = k, premium = p, Option_type = Put\<rparr> k = Fin (- p)"
  by (simp add: calculatePayoff_def std_max_def max_def)

end
